theory Spec2Isabelle
  imports Main
begin

section \<open>Text values\<close>

text \<open>
  Python strings are modelled as ASCII texts (\<open>char list\<close>). \<open>str.strip()\<close> removes the
  whitespace characters of that range from both ends, \<open>str.lower()\<close> maps \<open>A\<close>..\<open>Z\<close> to
  \<open>a\<close>..\<open>z\<close>, and \<open>sub in s\<close> is the substring test.
\<close>

definition isspace :: "char \<Rightarrow> bool" where
  "isspace c = (let n = (of_char c :: nat) in (9 \<le> n \<and> n \<le> 13) \<or> (28 \<le> n \<and> n \<le> 32))"

definition strip :: "string \<Rightarrow> string" where
  "strip s = rev (dropWhile isspace (rev (dropWhile isspace s)))"

definition lower_char :: "char \<Rightarrow> char" where
  "lower_char c = (let n = (of_char c :: nat) in if 65 \<le> n \<and> n \<le> 90 then char_of (n + 32) else c)"

definition lower :: "string \<Rightarrow> string" where
  "lower s = map lower_char s"

fun startswith :: "string \<Rightarrow> string \<Rightarrow> bool" where
  "startswith s [] = True"
| "startswith [] (p # ps) = False"
| "startswith (c # cs) (p # ps) = (c = p \<and> startswith cs ps)"

fun contains :: "string \<Rightarrow> string \<Rightarrow> bool" where
  "contains sub [] = (sub = [])"
| "contains sub (c # cs) = (startswith (c # cs) sub \<or> contains sub cs)"

fun digits :: "nat \<Rightarrow> string" where
  "digits n = (if n < 10 then [char_of (48 + n)] else digits (n div 10) @ [char_of (48 + n mod 10)])"

definition str_int :: "int \<Rightarrow> string" where
  "str_int i = (if i < 0 then CHR ''-'' # digits (nat (- i)) else digits (nat i))"

text \<open>
  The texts that \<open>read_excel\<close> takes for numbers: whole numbers (an optional sign and
  digits, with blanks allowed around them) and the words for an infinity and for
  not-a-number, in any case and with an optional sign. Texts with a decimal point or an
  exponent, which pandas reads as floats, are not modelled as numbers.
\<close>

definition isdigit :: "char \<Rightarrow> bool" where
  "isdigit c = (let n = (of_char c :: nat) in 48 \<le> n \<and> n \<le> 57)"

fun unsigned :: "string \<Rightarrow> string" where
  "unsigned [] = []"
| "unsigned (c # cs) = (if c = CHR ''+'' \<or> c = CHR ''-'' then cs else c # cs)"

definition int_text :: "string \<Rightarrow> bool" where
  "int_text s = (unsigned (strip s) \<noteq> [] \<and> list_all isdigit (unsigned (strip s)))"

definition int_of_text :: "string \<Rightarrow> int" where
  "int_of_text s =
     (let n = int (foldl (\<lambda>a c. 10 * a + (of_char c - 48)) (0::nat) (unsigned (strip s)))
      in if startswith (strip s) ''-'' then - n else n)"

definition special_float :: "string \<Rightarrow> bool" where
  "special_float s = (lower (unsigned (strip s)) \<in> set [''inf'', ''infinity'', ''nan''])"

section \<open>Cells and frames\<close>

text \<open>
  A cell of a pandas DataFrame or of a sheet. A float other than \<open>NaN\<close>, a \<open>Timestamp\<close>
  and a \<open>datetime.date\<close> are identified by the text that \<open>str()\<close> prints for them.
\<close>

datatype cell =
    Text string
  | Number int
  | Float string
  | NaN
  | NaT
  | PyNone
  | Timestamp string
  | PyDate string

fun str_cell :: "cell \<Rightarrow> string" where
  "str_cell (Text s) = s"
| "str_cell (Number i) = str_int i"
| "str_cell (Float f) = f"
| "str_cell NaN = ''nan''"
| "str_cell NaT = ''NaT''"
| "str_cell PyNone = ''None''"
| "str_cell (Timestamp t) = t"
| "str_cell (PyDate d) = d"

fun isnull :: "cell \<Rightarrow> bool" where
  "isnull NaN = True"
| "isnull NaT = True"
| "isnull PyNone = True"
| "isnull _ = False"

text \<open>
  A DataFrame: the header (column labels in order, every label a text) and the rows, each
  row holding one cell per column in header order. A cell that a row does not hold reads as
  \<open>NaN\<close>.
  \<open>df[c]\<close> is the column at the first position of \<open>c\<close> in the header. A frame is
  \<open>well_formed\<close> when every row has one cell per column and the labels stay distinct
  once trimmed and lowercased, so that \<open>df[c]\<close> is a single column after the operations
  have normalised the header.
\<close>

record frame =
  columns :: "string list"
  rows :: "cell list list"

definition empty_frame :: frame where
  "empty_frame = \<lparr>columns = [], rows = []\<rparr>"

definition is_empty :: "frame \<Rightarrow> bool" where
  "is_empty df = (columns df = [] \<or> rows df = [])"

definition cell_at :: "cell list \<Rightarrow> nat \<Rightarrow> cell" where
  "cell_at r j = (if j < length r then r ! j else NaN)"

fun index_of :: "string \<Rightarrow> string list \<Rightarrow> nat" where
  "index_of c [] = 0"
| "index_of c (x # xs) = (if x = c then 0 else Suc (index_of c xs))"

definition get_column :: "nat \<Rightarrow> frame \<Rightarrow> cell list" where
  "get_column j df = map (\<lambda>r. cell_at r j) (rows df)"

definition column :: "frame \<Rightarrow> string \<Rightarrow> cell list" where
  "column df c = get_column (index_of c (columns df)) df"

definition set_column :: "nat \<Rightarrow> cell list \<Rightarrow> frame \<Rightarrow> frame" where
  "set_column j vs df = df\<lparr>rows := map (\<lambda>(r, v). r[j := v]) (zip (rows df) vs)\<rparr>"

definition normalise_columns :: "frame \<Rightarrow> frame" where
  "normalise_columns df = df\<lparr>columns := map (\<lambda>c. lower (strip c)) (columns df)\<rparr>"

definition well_formed :: "frame \<Rightarrow> bool" where
  "well_formed df =
     (distinct (map (\<lambda>c. lower (strip c)) (columns df)) \<and>
      list_all (\<lambda>r. length r = length (columns df)) (rows df))"

section \<open>Column loops\<close>

text \<open>
  \<open>for col in df.columns: if p: df[col] = f(df[col])\<close>, the loop of \<open>get_table_data\<close> and
  of \<open>update_table\<close>, also used for the column-by-column typing of a sheet that is read;
  \<open>j\<close> is the position of \<open>col\<close> in the header.
\<close>

fun for_columns ::
  "(string \<Rightarrow> cell list \<Rightarrow> bool) \<Rightarrow> (cell list \<Rightarrow> cell list) \<Rightarrow> nat \<Rightarrow> string list \<Rightarrow> frame \<Rightarrow> frame" where
  "for_columns p f j [] df = df"
| "for_columns p f j (col # cols) df =
     for_columns p f (Suc j) cols
       (if p col (get_column j df) then set_column j (f (get_column j df)) df else df)"

section \<open>Configuration\<close>

definition PRIMARY_KEYS :: "string \<Rightarrow> string option" where
  "PRIMARY_KEYS table_name =
     (if table_name = ''students'' then Some ''student_id''
      else if table_name = ''college_admin_data'' then Some ''admin_id''
      else None)"

section \<open>The backing file\<close>

text \<open>
  The state of the file at \<open>file_path\<close>: it does not exist, it exists but \<open>read_excel\<close>
  raises on it, or it holds a sheet, given by its header and its rows of cells.
  \<open>to_excel\<close> replaces the sheet by the frame it is given when the destination can be
  written and raises otherwise, leaving the file as it was.
\<close>

datatype excel_file = Absent | Corrupt | Workbook frame

record disk =
  content :: excel_file
  writable :: bool

datatype exn = ReadFailure | WriteFailure | NameError string | AttributeError

definition path_exists :: "disk \<Rightarrow> bool" where
  "path_exists d = (content d \<noteq> Absent)"

definition to_excel :: "frame \<Rightarrow> disk \<Rightarrow> exn + disk" where
  "to_excel df d = (if writable d then Inr (d\<lparr>content := Workbook df\<rparr>) else Inl WriteFailure)"

text \<open>
  \<open>pd.read_excel(file_path, engine='openpyxl')\<close> is called without \<open>dtype\<close>, so pandas types
  every column anew on each read:
  \<^item> the empty rows at the end of the sheet are dropped, and so is every empty row of a
    sheet that has a single column (a blank line of the parser);
  \<^item> an empty cell, and a text that is one of the default missing-value texts, is \<open>NaN\<close>;
    so is a text that openpyxl has stored as an error code or as a formula (a text that
    begins with \<open>=\<close> and goes on), which has no value to read; a date is a timestamp at
    midnight;
  \<^item> a column in which every cell is then a number, \<open>NaN\<close> or a text taken for a number
    becomes a column of numbers: integers when it has no \<open>NaN\<close> and no float, and floats
    otherwise, an integer \<open>n\<close> then printing as \<open>n.0\<close> (as it does below \<open>10^16\<close>);
  \<^item> every other column keeps its cells.
  The header is kept as it is.
\<close>

definition na_values :: "string list" where
  "na_values =
     [ [], ''#N/A'', ''#N/A N/A'', ''#NA'', ''-1.#IND'', ''-1.#QNAN'', ''-NaN'', ''-nan'',
      ''1.#IND'', ''1.#QNAN'', ''<NA>'', ''N/A'', ''NA'', ''NULL'', ''NaN'', ''None'', ''n/a'',
      ''nan'', ''null'']"

definition error_codes :: "string list" where
  "error_codes = [''#NULL!'', ''#DIV/0!'', ''#VALUE!'', ''#REF!'', ''#NAME?'', ''#NUM!'', ''#N/A'']"

fun empty_cell :: "cell \<Rightarrow> bool" where
  "empty_cell (Text s) = (s = [])"
| "empty_cell NaN = True"
| "empty_cell NaT = True"
| "empty_cell PyNone = True"
| "empty_cell _ = False"

fun read_cell :: "cell \<Rightarrow> cell" where
  "read_cell (Text s) =
     (if s \<in> set na_values \<or> s \<in> set error_codes \<or> (startswith s ''='' \<and> 1 < length s)
      then NaN else Text s)"
| "read_cell NaN = NaN"
| "read_cell NaT = NaN"
| "read_cell PyNone = NaN"
| "read_cell (PyDate d) = Timestamp (d @ '' 00:00:00'')"
| "read_cell c = c"

fun reads_as_number :: "cell \<Rightarrow> bool" where
  "reads_as_number (Number i) = True"
| "reads_as_number (Float f) = True"
| "reads_as_number NaN = True"
| "reads_as_number (Text s) = (int_text s \<or> special_float s)"
| "reads_as_number _ = False"

fun is_float :: "cell \<Rightarrow> bool" where
  "is_float (Float f) = True"
| "is_float NaN = True"
| "is_float (Text s) = special_float s"
| "is_float _ = False"

fun to_int :: "cell \<Rightarrow> cell" where
  "to_int (Text s) = Number (int_of_text s)"
| "to_int c = c"

fun to_float :: "cell \<Rightarrow> cell" where
  "to_float (Text s) =
     (if lower (unsigned (strip s)) = ''nan'' then NaN
      else if special_float s
      then Float ((if startswith (strip s) ''-'' then ''-'' else []) @ ''inf'')
      else Float (str_int (int_of_text s) @ ''.0''))"
| "to_float (Number i) = Float (str_int i @ ''.0'')"
| "to_float c = c"

definition infer_column :: "cell list \<Rightarrow> cell list" where
  "infer_column cs =
     (let cs1 = map read_cell cs
      in if list_all reads_as_number cs1
         then (if list_ex is_float cs1 then map to_float cs1 else map to_int cs1)
         else cs1)"

definition data_rows :: "frame \<Rightarrow> cell list list" where
  "data_rows sheet =
     (let rs = rev (dropWhile (list_all empty_cell) (rev (rows sheet)))
      in if length (columns sheet) \<le> 1 then filter (\<lambda>r. \<not> list_all empty_cell r) rs else rs)"

definition parse_sheet :: "frame \<Rightarrow> frame" where
  "parse_sheet sheet =
     for_columns (\<lambda>col cs. True) infer_column 0 (columns sheet)
       (sheet\<lparr>rows := data_rows sheet\<rparr>)"

fun read_excel :: "disk \<Rightarrow> exn + frame" where
  "read_excel d = (case content d of Workbook sheet \<Rightarrow> Inr (parse_sheet sheet) | _ \<Rightarrow> Inl ReadFailure)"

text \<open>
  \<open>df.columns = df.columns.str.strip().str.lower()\<close>. The \<open>.str\<close> accessor raises on the
  header of a sheet without columns, which is not an index of texts.
\<close>

definition str_columns :: "frame \<Rightarrow> exn + frame" where
  "str_columns df = (if columns df = [] then Inl AttributeError else Inr (normalise_columns df))"

text \<open>What the page shows: one constructor for each \<open>st.warning\<close>, \<open>st.error\<close>, \<open>st.info\<close>,
  \<open>st.success\<close> and \<open>st.dataframe\<close> call of the functions below.\<close>

datatype notice =
    Warning_file_not_found
  | Error_reading
  | Warning_cannot_display
  | Info_empty_or_unreadable
  | Info_edit_hint
  | Error_data_editor
  | Info_incompatible_file
  | Info_no_changes
  | Error_pk_undefined
  | Error_pk_column_missing
  | Error_pk_empty
  | Error_pk_duplicate
  | Dataframe "cell list list"
  | Success_saved
  | Error_saving
  | Warning_pk_column_not_found
  | Error_checking_pk
  | Error_fill_required
  | Error_pk_blank
  | Error_pk_exists
  | Warning_no_form
  | Info_enter_details
  | Error_reading_to_append
  | Info_overwrite
  | Info_creating
  | Success_added
  | Error_adding
  | Error_delete_no_file
  | Success_removed
  | Warning_not_found
  | Error_deleting

section \<open>check_pk_exists\<close>

definition check_pk_exists :: "disk \<Rightarrow> string \<Rightarrow> string \<Rightarrow> notice list \<times> bool" where
  "check_pk_exists d pk_column_name pk_value =
     (if \<not> path_exists d then ([], False)
      else case read_excel d of
        Inl e \<Rightarrow> ([Error_checking_pk], False)
      | Inr df0 \<Rightarrow>
         (case str_columns df0 of
            Inl e \<Rightarrow> ([Error_checking_pk], False)
          | Inr df \<Rightarrow>
              let pk = lower pk_column_name
              in if pk \<notin> set (columns df) then ([Warning_pk_column_not_found], False)
                 else ([], lower (strip pk_value) \<in>
                            set (map (\<lambda>c. lower (strip (str_cell c))) (column df pk)))))"

section \<open>delete_record\<close>

definition delete_record :: "disk \<Rightarrow> string \<Rightarrow> string \<Rightarrow> (notice list \<times> bool) \<times> disk" where
  "delete_record d table_name record_id_to_delete =
     (if \<not> path_exists d then (([Error_delete_no_file], False), d)
      else case PRIMARY_KEYS table_name of
        None \<Rightarrow> (([Error_pk_undefined], False), d)
      | Some pk_column \<Rightarrow>
         (case read_excel d of
            Inl e \<Rightarrow> (([Error_deleting, Error_deleting], False), d)
          | Inr df0 \<Rightarrow>
             (case str_columns df0 of
                Inl e \<Rightarrow> (([Error_deleting, Error_deleting], False), d)
              | Inr df \<Rightarrow>
                  let pk = lower pk_column
                  in if pk \<notin> set (columns df) then (([Error_pk_column_missing], False), d)
                     else
                       let j = index_of pk (columns df);
                           original_row_count = length (rows df);
                           df_filtered = df\<lparr>rows := filter (\<lambda>r. str_cell (cell_at r j) \<noteq> record_id_to_delete) (rows df)\<rparr>
                       in if length (rows df_filtered) < original_row_count
                          then (case to_excel df_filtered d of
                                  Inl e \<Rightarrow> (([Error_deleting, Error_deleting], False), d)
                                | Inr d' \<Rightarrow> (([Success_removed], True), d'))
                          else (([Warning_not_found], False), d))))"

section \<open>get_table_data\<close>

text \<open>
  \<open>select_dtypes(include=['object'])\<close>: a column that \<open>read_excel\<close> could type as numbers
  or as timestamps is not an object column; \<open>Series.str.strip()\<close> strips the texts of an
  object column and turns every other cell into \<open>NaN\<close>.
\<close>

fun is_numeric :: "cell \<Rightarrow> bool" where
  "is_numeric (Number i) = True"
| "is_numeric (Float f) = True"
| "is_numeric NaN = True"
| "is_numeric _ = False"

fun is_datetime :: "cell \<Rightarrow> bool" where
  "is_datetime (Timestamp t) = True"
| "is_datetime NaT = True"
| "is_datetime NaN = True"
| "is_datetime _ = False"

definition object_dtype :: "cell list \<Rightarrow> bool" where
  "object_dtype cs = (\<not> list_all is_numeric cs \<and> \<not> list_all is_datetime cs)"

fun str_strip :: "cell \<Rightarrow> cell" where
  "str_strip (Text s) = Text (strip s)"
| "str_strip _ = NaN"

definition get_table_data :: "disk \<Rightarrow> notice list \<times> frame" where
  "get_table_data d =
     (if path_exists d then
        (case read_excel d of
           Inl e \<Rightarrow> ([Error_reading], empty_frame)
         | Inr df0 \<Rightarrow>
            (case str_columns df0 of
               Inl e \<Rightarrow> ([Error_reading], empty_frame)
             | Inr df \<Rightarrow>
                 ([], for_columns (\<lambda>col cs. object_dtype cs) (map str_strip) 0 (columns df) df)))
      else ([Warning_file_not_found], empty_frame))"

section \<open>display_data_editor\<close>

text \<open>
  \<open>editor_result\<close> is what \<open>st.data_editor\<close> returns for the loaded frame (\<open>None\<close> when it
  raises) and \<open>save\<close> says whether the save button was pressed.
  The editor has a fixed number of rows and no way to add a column, so a frame that differs
  from the loaded one has the header of the loaded one, which is not empty.
\<close>

definition invalid_pk :: "cell \<Rightarrow> bool" where
  "invalid_pk c =
     (isnull c \<or> str_cell c = [] \<or> lower (str_cell c) = ''nan'' \<or> lower (str_cell c) = ''nat'')"

definition duplicated :: "string list \<Rightarrow> bool" where
  "duplicated ks = (\<not> distinct ks)"

definition duplicated_rows :: "nat \<Rightarrow> cell list list \<Rightarrow> cell list list" where
  "duplicated_rows j rs =
     filter (\<lambda>r. 1 < length (filter (\<lambda>r'. str_cell (cell_at r' j) = str_cell (cell_at r j)) rs)) rs"

definition display_data_editor ::
  "disk \<Rightarrow> string \<Rightarrow> frame option \<Rightarrow> bool \<Rightarrow> notice list \<times> disk" where
  "display_data_editor d table_name editor_result save =
     (let (n0, df) = get_table_data d
      in if is_empty df \<and> \<not> path_exists d then (n0 @ [Warning_cannot_display], d)
         else
           let n1 = n0 @ (if is_empty df \<and> path_exists d then [Info_empty_or_unreadable] else [])
                       @ [Info_edit_hint]
           in case editor_result of
                None \<Rightarrow> (n1 @ [Error_data_editor, Info_incompatible_file], d)
              | Some edited_df0 \<Rightarrow>
                  if \<not> save then (n1, d)
                  else if edited_df0 = df then (n1 @ [Info_no_changes], d)
                  else
                    (case PRIMARY_KEYS table_name of
                       None \<Rightarrow> (n1 @ [Error_pk_undefined], d)
                     | Some pk_col \<Rightarrow>
                         let edited_df = normalise_columns edited_df0
                         in if pk_col \<notin> set (columns edited_df)
                            then (n1 @ [Error_pk_column_missing], d)
                            else
                              let j = index_of pk_col (columns edited_df);
                                  pk_cells = get_column j edited_df;
                                  pk_series_str = map str_cell pk_cells
                              in if list_ex invalid_pk pk_cells
                                 then
                                   (let invalid_rows =
                                          filter (\<lambda>r. invalid_pk (cell_at r j)) (rows edited_df)
                                    in (n1 @ [Error_pk_empty]
                                           @ (if invalid_rows \<noteq> [] then [Dataframe invalid_rows] else []), d))
                                 else if duplicated pk_series_str
                                 then (n1 @ [Error_pk_duplicate,
                                             Dataframe (duplicated_rows j (rows edited_df))], d)
                                 else
                                   (case to_excel edited_df d of
                                      Inl e \<Rightarrow> (n1 @ [Error_saving], d)
                                    | Inr d' \<Rightarrow> (n1 @ [Success_saved], d'))))"

section \<open>update_table\<close>

text \<open>
  \<open>pd.to_datetime(col, errors='coerce')\<close>. What pandas parses is a parameter: \<open>parse col c\<close>
  is the timestamp that it reads from cell \<open>c\<close> of column \<open>col\<close>, if any. A timestamp stays
  as it is; a missing cell and a cell that does not parse become \<open>NaT\<close>.
\<close>

fun coerce_cell :: "(cell list \<Rightarrow> cell \<Rightarrow> string option) \<Rightarrow> cell list \<Rightarrow> cell \<Rightarrow> cell" where
  "coerce_cell parse col (Timestamp t) = Timestamp t"
| "coerce_cell parse col NaN = NaT"
| "coerce_cell parse col NaT = NaT"
| "coerce_cell parse col PyNone = NaT"
| "coerce_cell parse col c = (case parse col c of Some t \<Rightarrow> Timestamp t | None \<Rightarrow> NaT)"

definition to_datetime :: "(cell list \<Rightarrow> cell \<Rightarrow> string option) \<Rightarrow> cell list \<Rightarrow> cell list" where
  "to_datetime parse col = map (coerce_cell parse col) col"

definition date_like :: "string \<Rightarrow> bool" where
  "date_like col = (contains ''date'' (lower col) \<or> contains ''dob'' (lower col))"

text \<open>\<open>pd.DataFrame([new_record])\<close>: the keys of the dict in insertion order, one row.\<close>

definition DataFrame1 :: "(string \<times> cell) list \<Rightarrow> frame" where
  "DataFrame1 new_record = \<lparr>columns = map fst new_record, rows = [map snd new_record]\<rparr>"

text \<open>\<open>if col not in new_df_row.columns: new_df_row[col] = np.nan\<close>, for each \<open>col\<close>.\<close>

fun add_missing :: "string list \<Rightarrow> frame \<Rightarrow> frame" where
  "add_missing [] nr = nr"
| "add_missing (col # cols) nr =
     add_missing cols
       (if col \<notin> set (columns nr)
        then \<lparr>columns = columns nr @ [col], rows = map (\<lambda>r. r @ [NaN]) (rows nr)\<rparr>
        else nr)"

text \<open>\<open>new_df_row[df.columns]\<close>: the listed columns, in the listed order.\<close>

definition select_columns :: "string list \<Rightarrow> frame \<Rightarrow> frame" where
  "select_columns cols nr =
     \<lparr>columns = cols,
      rows = map (\<lambda>r. map (\<lambda>c. cell_at r (index_of c (columns nr))) cols) (rows nr)\<rparr>"

text \<open>\<open>pd.concat([df, new_df_row], ignore_index=True)\<close> of two frames with the same header.\<close>

definition concat_rows :: "frame \<Rightarrow> frame \<Rightarrow> frame" where
  "concat_rows df nr = df\<lparr>rows := rows df @ rows nr\<rparr>"

text \<open>
  The inner \<open>try\<close> covers the read and the normalisation of the header: when either
  raises, the new record alone is taken as the table.
\<close>

definition update_table ::
  "(cell list \<Rightarrow> cell \<Rightarrow> string option) \<Rightarrow> disk \<Rightarrow> string \<Rightarrow> (string \<times> cell) list \<Rightarrow> notice list \<times> disk" where
  "update_table parse d table_name new_record =
     (let new_df_row = DataFrame1 new_record;
          (n1, df) =
            (if path_exists d then
               (case read_excel d of
                  Inr df0 \<Rightarrow>
                   (case str_columns df0 of
                      Inr df \<Rightarrow>
                        let new_df_row' = select_columns (columns df) (add_missing (columns df) new_df_row)
                        in ([], concat_rows df new_df_row')
                    | Inl read_err \<Rightarrow> ([Error_reading_to_append, Info_overwrite], new_df_row))
                | Inl read_err \<Rightarrow> ([Error_reading_to_append, Info_overwrite], new_df_row))
             else ([Info_creating], new_df_row));
          df' = for_columns (\<lambda>col cs. date_like col) (to_datetime parse) 0 (columns df) df
      in case to_excel df' d of
           Inr d' \<Rightarrow> (n1 @ [Success_added], d')
         | Inl e \<Rightarrow> (n1 @ [Error_adding, Error_adding], d))"

section \<open>add_new_record_form\<close>

text \<open>
  The values of the widgets when the form is submitted. A date widget gives a
  \<open>datetime.date\<close> and the salary widget a float, both held as their texts.
\<close>

record widgets =
  student_id :: string
  student_Name :: string
  student_class :: int
  gender :: string
  dob :: string
  email :: string
  phone :: string
  address :: string
  admission_date :: string
  fee_status :: string
  admin_id :: string
  full_name :: string
  phone_number :: string
  position :: string
  department :: string
  date_joined :: string
  employment_status :: string
  salary :: string
  work_shift :: string

text \<open>
  The names bound when the required fields of the students form are collected: the
  parameters and locals of \<open>add_new_record_form\<close>. Evaluating a name that is not bound
  (no global of the module has any of the names looked up here) raises \<open>NameError\<close>.
\<close>

definition students_scope :: "string \<Rightarrow> string \<Rightarrow> string \<Rightarrow> widgets \<Rightarrow> (string \<times> cell) list" where
  "students_scope table_name pk_column last_updated w =
     [(''table_name'', Text table_name),
      (''pk_column'', Text pk_column),
      (''last_updated'', Text last_updated),
      (''student_id'', Text (student_id w)),
      (''student_Name'', Text (student_Name w)),
      (''student_class'', Number (student_class w)),
      (''gender'', Text (gender w)),
      (''dob'', PyDate (dob w)),
      (''email'', Text (email w)),
      (''phone'', Text (phone w)),
      (''address'', Text (address w)),
      (''admission_date'', PyDate (admission_date w)),
      (''fee_status'', Text (fee_status w))]"

fun load_names :: "(string \<times> cell) list \<Rightarrow> string list \<Rightarrow> exn + cell list" where
  "load_names scope [] = Inr []"
| "load_names scope (x # xs) =
     (case map_of scope x of
        None \<Rightarrow> Inl (NameError x)
      | Some v \<Rightarrow> (case load_names scope xs of Inl e \<Rightarrow> Inl e | Inr vs \<Rightarrow> Inr (v # vs)))"

text \<open>Python truth value, and the two \<open>isinstance\<close> tests of the forms.\<close>

fun truthy :: "cell \<Rightarrow> bool" where
  "truthy (Text s) = (s \<noteq> [])"
| "truthy (Number i) = (i \<noteq> 0)"
| "truthy (Float f) = (f \<noteq> ''0.0'' \<and> f \<noteq> ''-0.0'')"
| "truthy PyNone = False"
| "truthy _ = True"

fun is_number_or_timestamp :: "cell \<Rightarrow> bool" where
  "is_number_or_timestamp (Number i) = True"
| "is_number_or_timestamp (Float f) = True"
| "is_number_or_timestamp NaN = True"
| "is_number_or_timestamp NaT = True"
| "is_number_or_timestamp (Timestamp t) = True"
| "is_number_or_timestamp _ = False"

fun is_str :: "cell \<Rightarrow> bool" where
  "is_str (Text s) = True"
| "is_str _ = False"

definition optional_text :: "string \<Rightarrow> cell" where
  "optional_text s = (if s \<noteq> [] then Text (strip s) else PyNone)"

definition student_record :: "widgets \<Rightarrow> string \<Rightarrow> (string \<times> cell) list" where
  "student_record w last_updated =
     [(''student_id'', Text (strip (student_id w))),
      (''studentName'', Text (strip (student_Name w))),
      (''class'', Number (student_class w)),
      (''gender'', Text (gender w)),
      (''dob'', PyDate (dob w)),
      (''email'', Text (strip (email w))),
      (''phone'', optional_text (phone w)),
      (''address'', optional_text (address w)),
      (''admission_date'', PyDate (admission_date w)),
      (''fee_status'', Text (fee_status w)),
      (''last_updated'', Text last_updated)]"

definition admin_record :: "widgets \<Rightarrow> string \<Rightarrow> (string \<times> cell) list" where
  "admin_record w last_updated =
     [(''admin_id'', Text (strip (admin_id w))),
      (''full_name'', Text (strip (full_name w))),
      (''email'', Text (strip (email w))),
      (''phone_number'', optional_text (phone_number w)),
      (''gender'', Text (gender w)),
      (''date_of_birth'', PyDate (dob w)),
      (''address'', optional_text (address w)),
      (''position'', Text (strip (position w))),
      (''department'', Text (strip (department w))),
      (''date_joined'', PyDate (date_joined w)),
      (''employment_status'', Text (employment_status w)),
      (''salary'', Float (salary w)),
      (''work_shift'', Text (work_shift w)),
      (''last_updated'', Text last_updated)]"

text \<open>
  The result is \<open>Inl\<close> when an exception leaves the function (its caller reports it) and the
  notices shown otherwise, with the file as the function leaves it. \<open>last_updated\<close> is the
  formatted time of the call. The \<open>st.rerun()\<close> that ends a successful submission only
  restarts the page and is left out.
\<close>

definition add_new_record_form ::
  "(cell list \<Rightarrow> cell \<Rightarrow> string option) \<Rightarrow> disk \<Rightarrow> string \<Rightarrow> widgets \<Rightarrow> string \<Rightarrow> bool \<Rightarrow>
     (exn + notice list) \<times> disk" where
  "add_new_record_form parse d table_name w last_updated submitted =
     (case PRIMARY_KEYS table_name of
        None \<Rightarrow> (Inr [Error_pk_undefined], d)
      | Some pk_column \<Rightarrow>
          if table_name = ''students'' then
            (if \<not> submitted then (Inr [Info_enter_details], d)
             else
               case load_names (students_scope table_name pk_column last_updated w)
                      [''student_id'', ''student_name'', ''student_class'', ''gender'', ''dob'',
                       ''email'', ''admission_date'', ''fee_status''] of
                 Inl e \<Rightarrow> (Inl e, d)
               | Inr required_fields \<Rightarrow>
                   if \<not> list_all (\<lambda>f. strip (str_cell f) \<noteq> [])
                          (filter (\<lambda>f. \<not> is_number_or_timestamp f) required_fields)
                      \<and> \<not> list_all truthy required_fields
                   then (Inr [Info_enter_details, Error_fill_required], d)
                   else if strip (student_id w) = []
                   then (Inr [Info_enter_details, Error_pk_blank], d)
                   else
                     let (n, found) = check_pk_exists d pk_column (student_id w)
                     in if found then (Inr (Info_enter_details # n @ [Error_pk_exists]), d)
                        else
                          let (n', d') = update_table parse d table_name
                                           (student_record w last_updated)
                          in (Inr (Info_enter_details # n @ n'), d'))
          else if table_name = ''college_admin_data'' then
            (if \<not> submitted then (Inr [Info_enter_details], d)
             else
               let required = [Text (admin_id w), Text (full_name w), Text (email w),
                               Text (position w), Text (department w), PyDate (date_joined w)]
               in if \<not> list_all (\<lambda>f. strip (str_cell f) \<noteq> []) (filter is_str required)
                     \<and> \<not> list_all truthy required
                  then (Inr [Info_enter_details, Error_fill_required], d)
                  else if strip (admin_id w) = []
                  then (Inr [Info_enter_details, Error_pk_blank], d)
                  else
                    let (n, found) = check_pk_exists d pk_column (admin_id w)
                    in if found then (Inr (Info_enter_details # n @ [Error_pk_exists]), d)
                       else
                         let (n', d') = update_table parse d table_name
                                          (admin_record w last_updated)
                         in (Inr (Info_enter_details # n @ n'), d'))
          else (Inr [Warning_no_form], d))"

section \<open>Keys that a read returns unchanged\<close>

text \<open>
  A key text that comes back from the file as the text it was written as, whatever the other
  cells of its column are: it is not empty, fits a cell, has only printable characters, does
  not begin with \<open>=\<close>, is no error code and has no \<open>_x\<close> (openpyxl rejects control
  characters, stores a text that begins with \<open>=\<close> as a formula and reads \<open>_x\<close> with four
  hexadecimal digits as an escape), has a character that no number has, and is none of the
  texts that pandas reads as a missing value, an infinity, not-a-number or a truth value.
\<close>

definition printable :: "char \<Rightarrow> bool" where
  "printable c = (let n = (of_char c :: nat) in 32 \<le> n \<and> n \<le> 126)"

definition numeric_char :: "char \<Rightarrow> bool" where
  "numeric_char c = (isdigit c \<or> c \<in> set ''+-.eE_'' \<or> isspace c)"

definition keeps_text :: "string \<Rightarrow> bool" where
  "keeps_text k =
     (k \<noteq> [] \<and> length k \<le> 32767 \<and> list_all printable k \<and> \<not> startswith k ''='' \<and>
      \<not> contains ''_x'' k \<and>
      list_ex (\<lambda>c. \<not> numeric_char c) k \<and>
      k \<notin> set na_values \<and> k \<notin> set error_codes \<and>
      \<not> special_float k \<and>
      lower k \<notin> set [''true'', ''false''])"

section \<open>Example inputs\<close>

text \<open>A \<open>to_datetime\<close> that parses nothing, the values of a filled form, and small tables.\<close>

definition no_parse :: "cell list \<Rightarrow> cell \<Rightarrow> string option" where
  "no_parse col c = None"

definition example_widgets :: widgets where
  "example_widgets =
     \<lparr>student_id = ''S1'', student_Name = ''Ann'', student_class = 1, gender = ''Female'',
      dob = ''2010-05-01'', email = ''ann@example.org'', phone = [], address = [],
      admission_date = ''2024-09-01'', fee_status = ''Paid'', admin_id = ''A1'',
      full_name = ''Bo'', phone_number = [], position = ''Clerk'', department = ''Office'',
      date_joined = ''2024-09-01'', employment_status = ''Active'', salary = ''0.0'',
      work_shift = ''Morning''\<rparr>"

definition example_table :: frame where
  "example_table = \<lparr>columns = [''Admin_ID '', ''Email''],
                    rows = [ [Text ''A7'', Text ''x@example.org''] ]\<rparr>"

definition table_without_key :: frame where
  "table_without_key = \<lparr>columns = [''name''], rows = [ [Text ''Ann''] ]\<rparr>"

definition admin_table :: frame where
  "admin_table = \<lparr>columns = [''admin_id''], rows = [ [Number 1], [Number 2] ]\<rparr>"

section \<open>Facts about texts\<close>

lemma dropWhile_hd: "dropWhile P xs \<noteq> [] \<Longrightarrow> \<not> P (hd (dropWhile P xs))"
  by (simp add: hd_dropWhile)

lemma dropWhile_rev_keeps_hd:
  assumes "ys \<noteq> []" "\<not> P (hd ys)"
  shows "rev (dropWhile P (rev ys)) \<noteq> [] \<and> hd (rev (dropWhile P (rev ys))) = hd ys"
proof -
  obtain y zs where ys: "ys = y # zs" using assms(1) by (cases ys) auto
  have "dropWhile P (rev zs @ [y]) = dropWhile P (rev zs) @ (if \<forall>x\<in>set (rev zs). P x then dropWhile P [y] else [y])"
    by (simp add: dropWhile_append)
  then show ?thesis using assms(2) ys
    by (auto simp: dropWhile_append split: if_splits)
qed

lemma strip_no_leading: "dropWhile isspace (strip s) = strip s"
proof (cases "dropWhile isspace s = []")
  case True
  then have "strip s = []" by (simp add: strip_def del: dropWhile_eq_Nil_conv)
  then show ?thesis by simp
next
  case False
  then have "\<not> isspace (hd (dropWhile isspace s))" by (rule dropWhile_hd)
  with False have "strip s \<noteq> [] \<and> hd (strip s) = hd (dropWhile isspace s)"
    unfolding strip_def by (rule dropWhile_rev_keeps_hd)
  then show ?thesis
    using \<open>\<not> isspace (hd (dropWhile isspace s))\<close> by (cases "strip s") auto
qed

lemma strip_strip: "strip (strip s) = strip s"
proof -
  have "strip (strip s) = rev (dropWhile isspace (rev (strip s)))"
    unfolding strip_def [of "strip s"] by (simp add: strip_no_leading)
  also have "\<dots> = strip s" by (simp add: strip_def)
  finally show ?thesis .
qed

lemma of_char_lower_char:
  "(of_char (lower_char c) :: nat) =
     (if 65 \<le> (of_char c :: nat) \<and> (of_char c :: nat) \<le> 90 then of_char c + 32 else of_char c)"
  by (simp add: lower_char_def Let_def)

lemma lower_char_idem: "lower_char (lower_char c) = lower_char c"
proof -
  have "\<not> (65 \<le> (of_char (lower_char c) :: nat) \<and> (of_char (lower_char c) :: nat) \<le> 90)"
    by (simp add: of_char_lower_char)
  then show ?thesis
    unfolding lower_char_def [of "lower_char c"] Let_def by auto
qed

lemma isspace_lower_char: "isspace (lower_char c) = isspace c"
  unfolding isspace_def Let_def of_char_lower_char by auto

lemma lower_lower: "lower (lower s) = lower s"
  by (simp add: lower_def lower_char_idem)

lemma dropWhile_isspace_lower: "dropWhile isspace (lower s) = lower (dropWhile isspace s)"
  by (induction s) (simp_all add: lower_def isspace_lower_char)

lemma strip_lower: "strip (lower s) = lower (strip s)"
proof -
  have rev_lower: "rev (lower t) = lower (rev t)" for t
    by (simp add: lower_def rev_map)
  show ?thesis
    by (simp add: strip_def dropWhile_isspace_lower rev_lower)
qed

lemma normalise_idem: "lower (strip (lower (strip c))) = lower (strip c)"
  by (simp add: strip_lower lower_lower strip_strip)

lemma map_normalise_idem:
  "map (\<lambda>c. lower (strip c)) (map (\<lambda>c. lower (strip c)) cs) = map (\<lambda>c. lower (strip c)) cs"
  by (simp add: normalise_idem)

section \<open>Facts about frames\<close>

lemma frame_eqI: "columns (df :: frame) = cs \<Longrightarrow> rows df = rs \<Longrightarrow> df = \<lparr>columns = cs, rows = rs\<rparr>"
  by (cases df) simp

lemma well_formed_width:
  "well_formed T \<Longrightarrow> \<forall>row\<in>set (rows T). length row = length (columns T)"
  by (simp add: well_formed_def list_all_iff)

lemma index_of_less: "c \<in> set xs \<Longrightarrow> index_of c xs < length xs"
  by (induction xs) auto

lemma nth_index_of: "c \<in> set xs \<Longrightarrow> xs ! index_of c xs = c"
  by (induction xs) auto

lemma index_of_ge: "c \<notin> set xs \<Longrightarrow> index_of c (xs @ ys) \<ge> length xs"
  by (induction xs) auto

lemma index_of_append_in: "c \<in> set xs \<Longrightarrow> index_of c (xs @ ys) = index_of c xs"
  by (induction xs) auto

lemma index_of_map_distinct:
  "distinct (map g xs) \<Longrightarrow> c \<in> set xs \<Longrightarrow> index_of (g c) (map g xs) = index_of c xs"
  by (induction xs) auto

lemma map_of_index_of:
  "c \<in> set (map fst r) \<Longrightarrow> map_of r c = Some (map snd r ! index_of c (map fst r))"
  by (induction r) auto

lemma add_missing_shape:
  assumes "columns nr = ks @ xs" "rows nr = [vs @ replicate (length xs) NaN]"
  shows "\<exists>ys. columns (add_missing cols nr) = ks @ ys \<and>
              rows (add_missing cols nr) = [vs @ replicate (length ys) NaN]"
  using assms
proof (induction cols arbitrary: nr xs)
  case Nil
  then show ?case by auto
next
  case (Cons col cols)
  show ?case
  proof (cases "col \<in> set (columns nr)")
    case True
    then show ?thesis using Cons.IH [OF Cons.prems] by simp
  next
    case False
    let ?nr = "\<lparr>columns = columns nr @ [col], rows = map (\<lambda>r. r @ [NaN]) (rows nr)\<rparr>"
    have c: "columns ?nr = ks @ (xs @ [col])" using Cons.prems by simp
    have r: "rows ?nr = [vs @ replicate (length (xs @ [col])) NaN]"
      using Cons.prems by (simp add: replicate_append_same)
    from Cons.IH [OF c r] False show ?thesis by simp
  qed
qed

lemma select_new_row:
  "rows (select_columns cols (add_missing cols (DataFrame1 r))) =
     [map (\<lambda>c. case map_of r c of Some v \<Rightarrow> v | None \<Rightarrow> NaN) cols]"
proof -
  have "columns (DataFrame1 r) = map fst r @ []" "rows (DataFrame1 r) = [map snd r @ replicate (length ([]::string list)) NaN]"
    by (simp_all add: DataFrame1_def)
  from add_missing_shape [OF this] obtain ys where
    c: "columns (add_missing cols (DataFrame1 r)) = map fst r @ ys" and
    r: "rows (add_missing cols (DataFrame1 r)) = [map snd r @ replicate (length ys) NaN]"
    by blast
  have cell: "cell_at (map snd r @ replicate (length ys) NaN) (index_of c (map fst r @ ys)) =
        (case map_of r c of Some v \<Rightarrow> v | None \<Rightarrow> NaN)" for c
  proof (cases "c \<in> set (map fst r)")
    case True
    then have "index_of c (map fst r @ ys) = index_of c (map fst r)" by (rule index_of_append_in)
    moreover have "index_of c (map fst r) < length r" using index_of_less [OF True] by simp
    ultimately show ?thesis using map_of_index_of [OF True]
      by (simp add: cell_at_def nth_append)
  next
    case False
    then have "length (map fst r) \<le> index_of c (map fst r @ ys)" by (rule index_of_ge)
    moreover from False have "map_of r c = None" by (simp add: map_of_eq_None_iff)
    ultimately show ?thesis by (auto simp: cell_at_def nth_append)
  qed
  show ?thesis by (simp add: select_columns_def c r cell)
qed

lemma columns_set_column [simp]: "columns (set_column j vs df) = columns df"
  by (simp add: set_column_def)

lemma length_rows_set_column:
  "length vs = length (rows df) \<Longrightarrow> length (rows (set_column j vs df)) = length (rows df)"
  by (simp add: set_column_def)

lemma width_set_column:
  "\<forall>r\<in>set (rows df). length r = w \<Longrightarrow> \<forall>r\<in>set (rows (set_column j vs df)). length r = w"
  by (auto simp: set_column_def dest: set_zip_leftD)

lemma get_column_set_column_other:
  assumes "length vs = length (rows df)" "i \<noteq> j"
  shows "get_column i (set_column j vs df) = get_column i df"
proof -
  have "get_column i (set_column j vs df) = map (\<lambda>(r, v). cell_at r i) (zip (rows df) vs)"
    using assms(2) by (auto simp: get_column_def set_column_def cell_at_def)
  also have "\<dots> = map (\<lambda>r. cell_at r i) (map fst (zip (rows df) vs))"
    by (simp add: case_prod_unfold comp_def)
  also have "\<dots> = get_column i df"
    using assms(1) by (simp add: get_column_def)
  finally show ?thesis .
qed

lemma get_column_set_column_same:
  assumes "length vs = length (rows df)" "\<forall>r\<in>set (rows df). length r = w" "j < w"
  shows "get_column j (set_column j vs df) = vs"
proof -
  have "get_column j (set_column j vs df) = map (\<lambda>(r, v). cell_at (r[j := v]) j) (zip (rows df) vs)"
    by (simp add: get_column_def set_column_def case_prod_unfold comp_def)
  also have "\<dots> = map (\<lambda>(r, v). v) (zip (rows df) vs)"
    using assms(2,3) by (intro map_cong refl) (auto simp: cell_at_def dest: set_zip_leftD)
  also have "\<dots> = vs"
    using assms(1) by (simp add: case_prod_unfold) 
  finally show ?thesis .
qed

lemma for_columns_spec:
  assumes len: "\<And>cs. length (f cs) = length cs"
  shows "(\<forall>r\<in>set (rows df). length r = w) \<Longrightarrow> j + length cols \<le> w \<Longrightarrow>
     columns (for_columns p f j cols df) = columns df \<and>
     length (rows (for_columns p f j cols df)) = length (rows df) \<and>
     (\<forall>r\<in>set (rows (for_columns p f j cols df)). length r = w) \<and>
     (\<forall>i<w. get_column i (for_columns p f j cols df) =
        (if j \<le> i \<and> i < j + length cols \<and> p (cols ! (i - j)) (get_column i df)
         then f (get_column i df) else get_column i df))"
proof (induction cols arbitrary: j df)
  case Nil
  then show ?case by auto
next
  case (Cons col cols)
  let ?df1 = "if p col (get_column j df) then set_column j (f (get_column j df)) df else df"
  have l: "length (f (get_column j df)) = length (rows df)"
    by (simp add: len get_column_def)
  have w1: "\<forall>r\<in>set (rows ?df1). length r = w"
    using Cons.prems(1) width_set_column [OF Cons.prems(1)] by simp
  have j1: "Suc j + length cols \<le> w" using Cons.prems(2) by simp
  note IH = Cons.IH [OF w1 j1]
  have c1: "columns ?df1 = columns df" by simp
  have n1: "length (rows ?df1) = length (rows df)"
    using length_rows_set_column [OF l] by simp
  have g_same: "get_column j ?df1 = (if p col (get_column j df) then f (get_column j df) else get_column j df)"
    using get_column_set_column_same [OF l Cons.prems(1)] Cons.prems(2) by simp
  have g_other: "i \<noteq> j \<Longrightarrow> get_column i ?df1 = get_column i df" for i
    using get_column_set_column_other [OF l] by simp
  have "\<forall>i<w. get_column i (for_columns p f j (col # cols) df) =
        (if j \<le> i \<and> i < j + length (col # cols) \<and> p ((col # cols) ! (i - j)) (get_column i df)
         then f (get_column i df) else get_column i df)"
  proof (intro allI impI)
    fix i assume iw: "i < w"
    show "get_column i (for_columns p f j (col # cols) df) =
        (if j \<le> i \<and> i < j + length (col # cols) \<and> p ((col # cols) ! (i - j)) (get_column i df)
         then f (get_column i df) else get_column i df)"
    proof (cases "i = j")
      case True
      with IH iw g_same show ?thesis by simp
    next
      case False
      then have nth: "j \<le> i \<Longrightarrow> (col # cols) ! (i - j) = cols ! (i - Suc j)"
        by (simp add: nth_Cons')
      from IH iw have "get_column i (for_columns p f j (col # cols) df) =
        (if Suc j \<le> i \<and> i < Suc j + length cols \<and> p (cols ! (i - Suc j)) (get_column i ?df1)
         then f (get_column i ?df1) else get_column i ?df1)" by simp
      with False g_other [OF False] nth show ?thesis by auto
    qed
  qed
  with IH c1 n1 show ?case by simp
qed

lemma columns_for_columns [simp]: "columns (for_columns p f j cols df) = columns df"
  by (induction cols arbitrary: j df) auto

section \<open>Facts about reading a sheet\<close>

lemma length_infer_column [simp]: "length (infer_column cs) = length cs"
  by (simp add: infer_column_def Let_def)

lemma columns_parse_sheet [simp]: "columns (parse_sheet sheet) = columns sheet"
  by (simp add: parse_sheet_def)

lemma set_data_rows: "set (data_rows sheet) \<subseteq> set (rows sheet)"
proof -
  have "set (rev (dropWhile P (rev xs))) \<subseteq> set xs" for P and xs :: "cell list list"
    using set_dropWhileD [of _ P "rev xs"] by auto
  then show ?thesis by (auto simp: data_rows_def Let_def)
qed

lemma in_set_dropWhile: "x \<in> set xs \<Longrightarrow> \<not> P x \<Longrightarrow> x \<in> set (dropWhile P xs)"
  by (induction xs) auto

lemma data_rows_keeps:
  assumes "r \<in> set (rows sheet)" and "\<not> list_all empty_cell r"
  shows "r \<in> set (data_rows sheet)"
proof -
  have "r \<in> set (rev (dropWhile (list_all empty_cell) (rev (rows sheet))))"
    using assms by (simp add: in_set_dropWhile)
  with assms(2) show ?thesis by (simp add: data_rows_def Let_def)
qed

lemma parse_sheet_spec:
  assumes "well_formed sheet"
  shows "well_formed (parse_sheet sheet)"
    and "\<forall>i<length (columns sheet).
           get_column i (parse_sheet sheet) =
             infer_column (map (\<lambda>r. cell_at r i) (data_rows sheet))"
proof -
  let ?kept = "sheet\<lparr>rows := data_rows sheet\<rparr>"
  have w: "\<forall>r\<in>set (rows ?kept). length r = length (columns sheet)"
    using well_formed_width [OF assms] set_data_rows [of sheet] by auto
  have j: "0 + length (columns sheet) \<le> length (columns sheet)" by simp
  from for_columns_spec [of infer_column, OF length_infer_column w j, of "\<lambda>col cs. True"]
  have wd: "\<forall>r\<in>set (rows (parse_sheet sheet)). length r = length (columns sheet)"
    and g: "\<forall>i<length (columns sheet).
              get_column i (parse_sheet sheet) = infer_column (get_column i ?kept)"
    by (simp_all add: parse_sheet_def)
  show "well_formed (parse_sheet sheet)"
    using assms wd by (simp add: well_formed_def list_all_iff)
  show "\<forall>i<length (columns sheet).
           get_column i (parse_sheet sheet) =
             infer_column (map (\<lambda>r. cell_at r i) (data_rows sheet))"
    using g by (simp add: get_column_def)
qed

lemma get_column_parse_sheet:
  assumes "\<forall>r\<in>set (rows sheet). length r = length (columns sheet)"
    and "i < length (columns sheet)"
  shows "get_column i (parse_sheet sheet) =
           infer_column (map (\<lambda>r. cell_at r i) (data_rows sheet))"
proof -
  let ?kept = "sheet\<lparr>rows := data_rows sheet\<rparr>"
  have w: "\<forall>r\<in>set (rows ?kept). length r = length (columns sheet)"
    using assms(1) set_data_rows [of sheet] by auto
  have j: "0 + length (columns sheet) \<le> length (columns sheet)" by simp
  from for_columns_spec [of infer_column, OF length_infer_column w j, of "\<lambda>col cs. True"]
  have "\<forall>i<length (columns sheet).
              get_column i (parse_sheet sheet) = infer_column (get_column i ?kept)"
    by (simp add: parse_sheet_def)
  with assms(2) show ?thesis by (simp add: get_column_def)
qed

lemma in_set_strip: "c \<in> set s \<Longrightarrow> \<not> isspace c \<Longrightarrow> c \<in> set (strip s)"
  by (simp add: strip_def in_set_dropWhile)

lemma in_set_unsigned:
  "c \<in> set s \<Longrightarrow> c \<noteq> CHR ''+'' \<Longrightarrow> c \<noteq> CHR ''-'' \<Longrightarrow> c \<in> set (unsigned s)"
  by (cases s) auto

lemma keeps_text_facts:
  assumes "keeps_text k"
  shows "k \<noteq> []" and "read_cell (Text k) = Text k" and "\<not> reads_as_number (Text k)"
proof -
  show "k \<noteq> []" "read_cell (Text k) = Text k" using assms by (simp_all add: keeps_text_def)
  have sp: "\<not> special_float k" using assms by (simp add: keeps_text_def)
  from assms obtain c where c: "c \<in> set k" "\<not> numeric_char c"
    by (auto simp: keeps_text_def list_ex_iff)
  then have "\<not> isdigit c" "c \<noteq> CHR ''+''" "c \<noteq> CHR ''-''" "\<not> isspace c"
    by (auto simp: numeric_char_def)
  with c(1) have "c \<in> set (unsigned (strip k))"
    by (simp add: in_set_strip in_set_unsigned)
  with \<open>\<not> isdigit c\<close> have "\<not> int_text k"
    by (auto simp: int_text_def list_all_iff)
  with sp show "\<not> reads_as_number (Text k)" by simp
qed

lemma infer_column_keeps_text:
  assumes "Text k \<in> set cs" and "keeps_text k"
  shows "Text k \<in> set (infer_column cs)"
proof -
  note k = keeps_text_facts [OF assms(2)]
  have r: "read_cell (Text k) = Text k" using k(2) .
  then have mem: "Text k \<in> set (map read_cell cs)" using assms(1) by force
  have "\<not> reads_as_number (Text k)" using k(3) .
  with mem have "\<not> list_all reads_as_number (map read_cell cs)"
    unfolding list_all_iff by blast
  with mem show ?thesis by (simp add: infer_column_def Let_def)
qed

lemma key_survives_reading:
  assumes "\<forall>r\<in>set (rows sheet). length r = length (columns sheet)"
    and "j < length (columns sheet)"
    and "Text k \<in> set (get_column j sheet)"
    and "keeps_text k"
  shows "Text k \<in> set (get_column j (parse_sheet sheet))"
proof -
  from assms(3) obtain row where row: "row \<in> set (rows sheet)" "cell_at row j = Text k"
    by (auto simp: get_column_def)
  then have "j < length row" "row ! j = Text k"
    by (auto simp: cell_at_def split: if_splits)
  then have "Text k \<in> set row" by (metis nth_mem)
  moreover have "\<not> empty_cell (Text k)" using keeps_text_facts(1) [OF assms(4)] by simp
  ultimately have "\<not> list_all empty_cell row" unfolding list_all_iff by blast
  with row have "row \<in> set (data_rows sheet)" by (simp add: data_rows_keeps)
  with row have "Text k \<in> set (map (\<lambda>r. cell_at r j) (data_rows sheet))"
    by force
  from infer_column_keeps_text [OF this assms(4)]
  show ?thesis using get_column_parse_sheet [OF assms(1,2)] by simp
qed

section \<open>Facts about the operations\<close>

lemma PRIMARY_KEYS_facts:
  assumes "PRIMARY_KEYS table_name = Some pk"
  shows "lower pk = pk" "strip pk = pk" "\<not> date_like pk"
proof -
  have pk: "pk = ''student_id'' \<or> pk = ''admin_id''"
    using assms by (auto simp: PRIMARY_KEYS_def split: if_splits)
  have s: "lower ''student_id'' = ''student_id''" "strip ''student_id'' = ''student_id''"
          "\<not> date_like ''student_id''"
    by code_simp+
  have a: "lower ''admin_id'' = ''admin_id''" "strip ''admin_id'' = ''admin_id''"
          "\<not> date_like ''admin_id''"
    by code_simp+
  show "lower pk = pk" using pk s a by auto
  show "strip pk = pk" using pk s a by auto
  show "\<not> date_like pk" using pk s a by auto
qed

lemma length_to_datetime [simp]: "length (to_datetime parse col) = length col"
  by (simp add: to_datetime_def)

lemma coerce_cell_result: "(\<exists>t. coerce_cell parse col c = Timestamp t) \<or> coerce_cell parse col c = NaT"
  by (cases c) (auto split: option.splits)

lemma isnull_coerced_NaN: "isnull (last (to_datetime parse (cs @ [NaN])))"
  by (simp add: to_datetime_def)

lemma read_excel_path_exists: "read_excel d = Inr T \<Longrightarrow> path_exists d"
  by (auto simp: path_exists_def split: excel_file.splits)

lemma update_table_read:
  assumes "read_excel d = Inr T" and "columns T \<noteq> []" and "writable d"
  shows "update_table parse d table_name r =
     ([Success_added],
      d\<lparr>content := Workbook (for_columns (\<lambda>col cs. date_like col) (to_datetime parse) 0
               (map (\<lambda>c. lower (strip c)) (columns T))
               (T\<lparr>columns := map (\<lambda>c. lower (strip c)) (columns T),
                  rows := rows T @ [map (\<lambda>c. case map_of r c of Some v \<Rightarrow> v | None \<Rightarrow> NaN)
                                     (map (\<lambda>c. lower (strip c)) (columns T))]\<rparr>))\<rparr>)"
  using assms read_excel_path_exists [OF assms(1)]
  by (simp add: update_table_def str_columns_def normalise_columns_def concat_rows_def
                select_new_row to_excel_def Let_def del: read_excel.simps)

lemma update_table_new_file:
  assumes "content d = Absent \<or> content d = Corrupt" "writable d"
  shows "update_table parse d table_name r =
     ((if content d = Absent then [Info_creating] else [Error_reading_to_append, Info_overwrite])
        @ [Success_added],
      d\<lparr>content := Workbook (for_columns (\<lambda>col cs. date_like col) (to_datetime parse) 0
               (map fst r) (DataFrame1 r))\<rparr>)"
  using assms
  by (auto simp: update_table_def path_exists_def to_excel_def Let_def DataFrame1_def)

lemma update_table_empty_sheet:
  assumes "read_excel d = Inr T" and "columns T = []" and "writable d"
  shows "update_table parse d table_name r =
     ([Error_reading_to_append, Info_overwrite, Success_added],
      d\<lparr>content := Workbook (for_columns (\<lambda>col cs. date_like col) (to_datetime parse) 0
               (map fst r) (DataFrame1 r))\<rparr>)"
  using assms read_excel_path_exists [OF assms(1)]
  by (simp add: update_table_def str_columns_def to_excel_def Let_def DataFrame1_def
           del: read_excel.simps)

lemma coerced_single_row:
  "\<exists>row. for_columns (\<lambda>col cs. date_like col) (to_datetime parse) 0 (map fst r) (DataFrame1 r) =
            \<lparr>columns = map fst r, rows = [row]\<rparr> \<and>
         length row = length r \<and>
         (\<forall>i<length r. row ! i =
            (if date_like (fst (r ! i)) then coerce_cell parse [snd (r ! i)] (snd (r ! i))
             else snd (r ! i)))"
proof -
  let ?F = "for_columns (\<lambda>col cs. date_like col) (to_datetime parse) 0 (map fst r) (DataFrame1 r)"
  have w: "\<forall>row\<in>set (rows (DataFrame1 r)). length row = length r"
    by (simp add: DataFrame1_def)
  have j: "0 + length (map fst r) \<le> length r" by simp
  from for_columns_spec [of "to_datetime parse", OF length_to_datetime w j,
                          of "\<lambda>col cs. date_like col"]
  have c: "columns ?F = map fst r"
    and n: "length (rows ?F) = 1"
    and wd: "\<forall>row\<in>set (rows ?F). length row = length r"
    and g: "\<forall>i<length r. get_column i ?F =
              (if date_like (fst (r ! i)) then to_datetime parse (get_column i (DataFrame1 r))
               else get_column i (DataFrame1 r))"
    by (simp_all add: DataFrame1_def)
  from n obtain row where row: "rows ?F = [row]"
    by (cases "rows ?F") auto
  have lr: "length row = length r" using wd row by simp
  have "row ! i = (if date_like (fst (r ! i)) then coerce_cell parse [snd (r ! i)] (snd (r ! i))
             else snd (r ! i))" if "i < length r" for i
  proof -
    have "get_column i (DataFrame1 r) = [snd (r ! i)]"
      using that by (simp add: get_column_def DataFrame1_def cell_at_def)
    moreover have "get_column i ?F = [row ! i]"
      using that lr row by (simp add: get_column_def cell_at_def)
    ultimately show ?thesis using g that by (auto simp: to_datetime_def split: if_splits)
  qed
  with frame_eqI [OF c row] lr show ?thesis by blast
qed

lemma single_row_table:
  assumes "content d = Absent \<or> content d = Corrupt \<or> (\<exists>T. read_excel d = Inr T \<and> columns T = [])"
    and "writable d"
  shows "\<exists>row. snd (update_table parse d table_name r) =
             d\<lparr>content := Workbook \<lparr>columns = map fst r, rows = [row]\<rparr>\<rparr> \<and>
          length row = length r \<and>
          (\<forall>i<length r. row ! i =
             (if date_like (fst (r ! i)) then coerce_cell parse [snd (r ! i)] (snd (r ! i))
              else snd (r ! i)))"
proof -
  from coerced_single_row [of parse r] obtain row where
    F: "for_columns (\<lambda>col cs. date_like col) (to_datetime parse) 0 (map fst r) (DataFrame1 r) =
            \<lparr>columns = map fst r, rows = [row]\<rparr>"
    and rest: "length row = length r"
       "\<forall>i<length r. row ! i =
            (if date_like (fst (r ! i)) then coerce_cell parse [snd (r ! i)] (snd (r ! i))
             else snd (r ! i))"
    by blast
  have "snd (update_table parse d table_name r) =
          d\<lparr>content := Workbook (for_columns (\<lambda>col cs. date_like col) (to_datetime parse) 0
               (map fst r) (DataFrame1 r))\<rparr>"
  proof (cases "content d = Absent \<or> content d = Corrupt")
    case True
    from update_table_new_file [OF True assms(2), of parse table_name r] show ?thesis by simp
  next
    case False
    with assms(1) obtain T where "read_excel d = Inr T" "columns T = []" by blast
    from update_table_empty_sheet [OF this assms(2), of parse table_name r] show ?thesis by simp
  qed
  with F rest show ?thesis by auto
qed

lemma appended_table:
  assumes "read_excel d = Inr T" and "columns T \<noteq> []" and "writable d" and "well_formed T"
  shows "\<exists>df. update_table parse d table_name r = ([Success_added], d\<lparr>content := Workbook df\<rparr>) \<and>
           columns df = map (\<lambda>c. lower (strip c)) (columns T) \<and>
           length (rows df) = length (rows T) + 1 \<and>
           (\<forall>row\<in>set (rows df). length row = length (columns T)) \<and>
           (\<forall>i<length (columns T).
              get_column i df =
                (if date_like (lower (strip (columns T ! i)))
                 then to_datetime parse
                        (get_column i T @ [case map_of r (lower (strip (columns T ! i))) of
                                             Some v \<Rightarrow> v | None \<Rightarrow> NaN])
                 else get_column i T @ [case map_of r (lower (strip (columns T ! i))) of
                                          Some v \<Rightarrow> v | None \<Rightarrow> NaN]))"
proof -
  let ?cols = "map (\<lambda>c. lower (strip c)) (columns T)"
  let ?new = "map (\<lambda>c. case map_of r c of Some v \<Rightarrow> v | None \<Rightarrow> NaN) ?cols"
  let ?A = "T\<lparr>columns := ?cols, rows := rows T @ [?new]\<rparr>"
  let ?F = "for_columns (\<lambda>col cs. date_like col) (to_datetime parse) 0 ?cols ?A"
  have w: "\<forall>row\<in>set (rows ?A). length row = length (columns T)"
    using well_formed_width [OF assms(4)] by auto
  have j: "0 + length ?cols \<le> length (columns T)" by simp
  have gA: "get_column i ?A = get_column i T @ [case map_of r (?cols ! i) of Some v \<Rightarrow> v | None \<Rightarrow> NaN]"
    if "i < length (columns T)" for i
    using that by (simp add: get_column_def cell_at_def)
  from for_columns_spec [of "to_datetime parse", OF length_to_datetime w j,
                          of "\<lambda>col cs. date_like col"]
  have c: "columns ?F = ?cols"
    and n: "length (rows ?F) = length (rows T) + 1"
    and wd: "\<forall>row\<in>set (rows ?F). length row = length (columns T)"
    and g: "\<forall>i<length (columns T). get_column i ?F =
              (if date_like (?cols ! i) then to_datetime parse (get_column i ?A)
               else get_column i ?A)"
    by simp_all
  have g': "\<forall>i<length (columns T).
              get_column i ?F =
                (if date_like (lower (strip (columns T ! i)))
                 then to_datetime parse
                        (get_column i T @ [case map_of r (lower (strip (columns T ! i))) of
                                             Some v \<Rightarrow> v | None \<Rightarrow> NaN])
                 else get_column i T @ [case map_of r (lower (strip (columns T ! i))) of
                                          Some v \<Rightarrow> v | None \<Rightarrow> NaN])"
    using g gA by simp
  have "update_table parse d table_name r = ([Success_added], d\<lparr>content := Workbook ?F\<rparr>)"
    using update_table_read [OF assms(1,2,3)] by simp
  with c n wd g' show ?thesis by blast
qed

lemma delete_record_read:
  assumes "read_excel d = Inr T" and "PRIMARY_KEYS table_name = Some pk"
    and "pk \<in> set (map (\<lambda>c. lower (strip c)) (columns T))"
  shows "delete_record d table_name k =
     (let j = index_of pk (map (\<lambda>c. lower (strip c)) (columns T));
          kept = filter (\<lambda>r. str_cell (cell_at r j) \<noteq> k) (rows T)
      in if length kept < length (rows T)
         then (if writable d
               then (([Success_removed], True),
                     d\<lparr>content := Workbook (T\<lparr>columns := map (\<lambda>c. lower (strip c)) (columns T),
                                               rows := kept\<rparr>)\<rparr>)
               else (([Error_deleting, Error_deleting], False), d))
         else (([Warning_not_found], False), d))"
proof -
  have ne: "columns T \<noteq> []" using assms(3) by auto
  show ?thesis
    using assms ne read_excel_path_exists [OF assms(1)] PRIMARY_KEYS_facts(1) [OF assms(2)]
    by (simp add: delete_record_def str_columns_def normalise_columns_def to_excel_def Let_def
             del: read_excel.simps)
qed

lemma check_pk_exists_read:
  assumes "read_excel d = Inr df"
    and "lower pk \<in> set (map (\<lambda>c. lower (strip c)) (columns df))"
  shows "snd (check_pk_exists d pk k) =
           (lower (strip k) \<in> set (map (\<lambda>c. lower (strip (str_cell c)))
               (get_column (index_of (lower pk) (map (\<lambda>c. lower (strip c)) (columns df))) df)))"
proof -
  have ne: "columns df \<noteq> []" using assms(2) by auto
  show ?thesis
    using assms ne read_excel_path_exists [OF assms(1)]
    by (simp add: check_pk_exists_def str_columns_def normalise_columns_def column_def
                  get_column_def Let_def del: read_excel.simps)
qed

lemma key_found_in_column:
  assumes "Text (strip k) \<in> set cs"
  shows "lower (strip k) \<in> set (map (\<lambda>c. lower (strip (str_cell c))) cs)"
proof -
  have "lower (strip (str_cell (Text (strip k)))) = lower (strip k)"
    by (simp add: strip_strip)
  with assms show ?thesis by force
qed

lemma exists_after_append_to_table:
  assumes pk: "lower pk = pk" "\<not> date_like pk"
    and r: "map_of r pk = Some (Text (strip k))"
    and key: "keeps_text (strip k)"
    and d: "read_excel d = Inr T" "writable d" "well_formed T"
    and col: "pk \<in> set (map (\<lambda>c. lower (strip c)) (columns T))"
  shows "snd (check_pk_exists (snd (update_table parse d table_name r)) pk k)"
proof -
  let ?cols = "map (\<lambda>c. lower (strip c)) (columns T)"
  let ?j = "index_of pk ?cols"
  have ne: "columns T \<noteq> []" using col by auto
  from appended_table [OF d(1) ne d(2,3), of parse table_name r] obtain df where
    u: "update_table parse d table_name r = ([Success_added], d\<lparr>content := Workbook df\<rparr>)"
    and c: "columns df = ?cols"
    and wd: "\<forall>row\<in>set (rows df). length row = length (columns T)"
    and g: "\<forall>i<length (columns T).
              get_column i df =
                (if date_like (lower (strip (columns T ! i)))
                 then to_datetime parse
                        (get_column i T @ [case map_of r (lower (strip (columns T ! i))) of
                                             Some v \<Rightarrow> v | None \<Rightarrow> NaN])
                 else get_column i T @ [case map_of r (lower (strip (columns T ! i))) of
                                          Some v \<Rightarrow> v | None \<Rightarrow> NaN])"
    by blast
  have j: "?j < length (columns T)" using index_of_less [OF col] by simp
  have nth: "lower (strip (columns T ! ?j)) = pk"
    using nth_index_of [OF col] j by simp
  have "get_column ?j df = get_column ?j T @ [Text (strip k)]"
    using g j nth pk(2) r by simp
  then have written: "Text (strip k) \<in> set (get_column ?j df)" by simp
  have wd': "\<forall>row\<in>set (rows df). length row = length (columns df)" using wd c by simp
  have j': "?j < length (columns df)" using j c by simp
  have mem: "Text (strip k) \<in> set (get_column ?j (parse_sheet df))"
    using key_survives_reading [OF wd' j' written key] .
  have rd: "read_excel (snd (update_table parse d table_name r)) = Inr (parse_sheet df)"
    using u by simp
  have col': "lower pk \<in> set (map (\<lambda>c. lower (strip c)) (columns (parse_sheet df)))"
    using col c pk(1) by (simp only: columns_parse_sheet map_normalise_idem)
  have "snd (check_pk_exists (snd (update_table parse d table_name r)) pk k) =
          (lower (strip k) \<in> set (map (\<lambda>c. lower (strip (str_cell c)))
              (get_column ?j (parse_sheet df))))"
    unfolding check_pk_exists_read [OF rd col'] columns_parse_sheet c map_normalise_idem pk(1) ..
  with key_found_in_column [OF mem] show ?thesis by simp
qed

lemma exists_after_first_append:
  assumes pk: "lower pk = pk" "strip pk = pk" "\<not> date_like pk"
    and r: "map_of r pk = Some (Text (strip k))"
    and key: "keeps_text (strip k)"
    and keys: "distinct (map (\<lambda>c. lower (strip c)) (map fst r))"
    and d: "content d = Absent \<or> content d = Corrupt \<or> (\<exists>T. read_excel d = Inr T \<and> columns T = [])"
           "writable d"
  shows "snd (check_pk_exists (snd (update_table parse d table_name r)) pk k)"
proof -
  let ?j = "index_of pk (map fst r)"
  let ?W = "\<lambda>row. \<lparr>columns = map fst r, rows = [row]\<rparr>"
  from single_row_table [OF d, of parse table_name r] obtain row where
    u: "snd (update_table parse d table_name r) = d\<lparr>content := Workbook (?W row)\<rparr>"
    and l: "length row = length r"
    and cells: "\<forall>i<length r. row ! i =
             (if date_like (fst (r ! i)) then coerce_cell parse [snd (r ! i)] (snd (r ! i))
              else snd (r ! i))"
    by blast
  have in_keys: "pk \<in> set (map fst r)"
    using r by (metis map_of_eq_None_iff option.distinct(1) set_map)
  have j: "?j < length r" using index_of_less [OF in_keys] by simp
  have fstj: "fst (r ! ?j) = pk" using nth_index_of [OF in_keys] j by simp
  have sndj: "snd (r ! ?j) = Text (strip k)"
    using map_of_index_of [OF in_keys] r j by simp
  have rowj: "row ! ?j = Text (strip k)" using cells j fstj sndj pk(3) by simp
  have idx: "index_of (lower pk) (map (\<lambda>c. lower (strip c)) (map fst r)) = ?j"
    using index_of_map_distinct [OF keys in_keys] pk(1,2) by simp
  have written: "Text (strip k) \<in> set (get_column ?j (?W row))"
    using rowj j l by (simp add: get_column_def cell_at_def)
  have wd: "\<forall>x\<in>set (rows (?W row)). length x = length (columns (?W row))" using l by simp
  have j': "?j < length (columns (?W row))" using j by simp
  have mem: "Text (strip k) \<in> set (get_column ?j (parse_sheet (?W row)))"
    using key_survives_reading [OF wd j' written key] .
  have rd: "read_excel (snd (update_table parse d table_name r)) = Inr (parse_sheet (?W row))"
    using u by simp
  have col': "lower pk \<in> set (map (\<lambda>c. lower (strip c)) (columns (parse_sheet (?W row))))"
  proof -
    have "lower (strip pk) \<in> (\<lambda>c. lower (strip c)) ` set (map fst r)"
      using in_keys by (rule imageI)
    then show ?thesis using pk(1,2) by (simp add: image_image)
  qed
  have "snd (check_pk_exists (snd (update_table parse d table_name r)) pk k) =
          (lower (strip k) \<in> set (map (\<lambda>c. lower (strip (str_cell c)))
              (get_column ?j (parse_sheet (?W row)))))"
    using check_pk_exists_read [OF rd col', of k] idx by simp
  with key_found_in_column [OF mem] show ?thesis by simp
qed

lemma admin_record_keys:
  "map fst (admin_record w last_updated) =
     [''admin_id'', ''full_name'', ''email'', ''phone_number'', ''gender'', ''date_of_birth'',
      ''address'', ''position'', ''department'', ''date_joined'', ''employment_status'',
      ''salary'', ''work_shift'', ''last_updated'']"
  by (simp add: admin_record_def)

lemma admin_record_keys_distinct:
  "distinct (map (\<lambda>c. lower (strip c)) (map fst (admin_record w last_updated)))"
  unfolding admin_record_keys by code_simp

lemma admin_record_key: 
  "map_of (admin_record w last_updated) ''admin_id'' = Some (Text (strip (admin_id w)))"
  by (simp add: admin_record_def)

lemma staff_form_appends:
  assumes "full_name w \<noteq> []" and "email w \<noteq> []" and "position w \<noteq> []" and "department w \<noteq> []"
    and "strip (admin_id w) \<noteq> []"
    and "\<not> snd (check_pk_exists d ''admin_id'' (admin_id w))"
  shows "snd (add_new_record_form parse d ''college_admin_data'' w last_updated True) =
           snd (update_table parse d ''college_admin_data'' (admin_record w last_updated))"
proof -
  have "admin_id w \<noteq> []" using assms(5) by (auto simp: strip_def)
  with assms show ?thesis
    by (simp add: add_new_record_form_def PRIMARY_KEYS_def split_beta)
qed

lemma filter_out_one:
  "distinct (map f xs) \<Longrightarrow> k \<in> set (map f xs) \<Longrightarrow>
     length (filter (\<lambda>x. f x \<noteq> k) xs) + 1 = length xs"
proof (induction xs)
  case Nil
  then show ?case by simp
next
  case (Cons x xs)
  show ?case
  proof (cases "f x = k")
    case True
    with Cons.prems have "k \<notin> f ` set xs" by auto
    then have "filter (\<lambda>x. f x \<noteq> k) xs = xs" by (auto simp: filter_id_conv)
    with True show ?thesis by simp
  next
    case False
    with Cons show ?thesis by auto
  qed
qed

lemma filter_out_none:
  "k \<notin> set (map f xs) \<Longrightarrow> filter (\<lambda>x. f x \<noteq> k) xs = xs"
  by (auto simp: filter_id_conv)

section \<open>Key comparison\<close>

text \<open>
  C1. The operations do not compare keys alike. In a table with the key cells \<open>7\<close> with
  a blank on each side and \<open>x\<close> (texts, which a read keeps as they are), the existence
  check of Add, which trims and lowercases both sides, finds the key \<open>7\<close>. The row filter
  of Delete compares the untrimmed text of the cell with the text it is given: it finds no
  such row, reports not-found and leaves the file as it was.
\<close>

theorem delete_compares_untrimmed_keys:
  "snd (check_pk_exists
          \<lparr>content = Workbook \<lparr>columns = [''student_id''], rows = [ [Text '' 7 ''], [Text ''x''] ]\<rparr>,
           writable = True\<rparr>
          ''student_id'' ''7'') = True \<and>
   delete_record
     \<lparr>content = Workbook \<lparr>columns = [''student_id''], rows = [ [Text '' 7 ''], [Text ''x''] ]\<rparr>,
      writable = True\<rparr>
     ''students'' ''7'' =
   (([Warning_not_found], False),
    \<lparr>content = Workbook \<lparr>columns = [''student_id''], rows = [ [Text '' 7 ''], [Text ''x''] ]\<rparr>,
     writable = True\<rparr>)"
  by code_simp

text \<open>
  When that text is the only key cell of the sheet, \<open>read_excel\<close> types the column as
  numbers: the cell is the number 7 and Delete removes the row.
\<close>

lemma lone_numeric_text_is_read_as_number:
  "read_excel \<lparr>content = Workbook \<lparr>columns = [''student_id''], rows = [ [Text '' 7 ''] ]\<rparr>,
               writable = True\<rparr> =
     Inr \<lparr>columns = [''student_id''], rows = [ [Number 7] ]\<rparr> \<and>
   delete_record
     \<lparr>content = Workbook \<lparr>columns = [''student_id''], rows = [ [Text '' 7 ''] ]\<rparr>,
      writable = True\<rparr>
     ''students'' ''7'' =
   (([Success_removed], True),
    \<lparr>content = Workbook \<lparr>columns = [''student_id''], rows = []\<rparr>, writable = True\<rparr>)"
  by code_simp

section \<open>Duplicate keys in the editor\<close>

text \<open>
  C2. The duplicate test of the editor compares the texts of the key cells as they are: an
  edited table with the keys \<open>A1\<close> and \<open>a1\<close> followed by a blank, which are one key once
  trimmed and lowercased, passes the test and is written to the backing file.
\<close>

theorem update_accepts_keys_equal_after_normalising:
  "lower (strip ''A1'') = lower (strip ''a1 '') \<and>
   display_data_editor
     \<lparr>content = Workbook \<lparr>columns = [''student_id''], rows = [ [Text ''A1''], [Text ''B2''] ]\<rparr>,
      writable = True\<rparr>
     ''students''
     (Some \<lparr>columns = [''student_id''], rows = [ [Text ''A1''], [Text ''a1 ''] ]\<rparr>) True =
   ([Info_edit_hint, Success_saved],
    \<lparr>content = Workbook \<lparr>columns = [''student_id''], rows = [ [Text ''A1''], [Text ''a1 ''] ]\<rparr>,
     writable = True\<rparr>)"
  by code_simp

text \<open>
  What the duplicate test of the editor does reject: an edited table in which two key
  cells have the same text is never written.
\<close>

lemma editor_rejects_equal_key_texts:
  assumes "PRIMARY_KEYS table_name = Some pk"
    and "\<not> distinct (map str_cell (column (normalise_columns edited) pk))"
  shows "snd (display_data_editor d table_name (Some edited) save) = d \<and>
         Success_saved \<notin> set (fst (display_data_editor d table_name (Some edited) save))"
  using assms
  by (auto simp: display_data_editor_def Let_def duplicated_def column_def get_table_data_def
           split: prod.splits option.splits sum.splits if_splits)

section \<open>The columns after an append\<close>

text \<open>
  C3 (as amended). Let \<open>T\<close> be the table that \<open>read_excel\<close> loads from the backing file,
  well formed, and let the file be writable. When \<open>T\<close> has at least one column, appending
  a record \<open>r\<close> persists a table with exactly the columns of \<open>T\<close> (trimmed and lowercased,
  in the order of \<open>T\<close>): a column of \<open>r\<close> that \<open>T\<close> does not have is dropped, not added.
  The table has one row more than \<open>T\<close>; the new row has a null marker in every column of
  \<open>T\<close> that \<open>r\<close> lacks, and outside the date-like columns the cells of \<open>T\<close> are kept
  and the new row holds the values of \<open>r\<close>. When there is no backing file, or the file is
  an empty sheet (no header), the persisted table has the columns of \<open>r\<close> and one row.
\<close>

theorem add_keeps_existing_columns:
  assumes "writable d"
    and "content d = Absent \<or> (read_excel d = Inr T \<and> well_formed T)"
  shows "\<exists>df. snd (update_table parse d table_name r) = d\<lparr>content := Workbook df\<rparr> \<and>
           (content d = Absent \<or> columns T = [] \<longrightarrow>
              columns df = map fst r \<and> length (rows df) = 1) \<and>
           (read_excel d = Inr T \<and> columns T \<noteq> [] \<longrightarrow>
              columns df = map (\<lambda>c. lower (strip c)) (columns T) \<and>
              length (rows df) = length (rows T) + 1 \<and>
              (\<forall>i<length (columns df).
                 columns df ! i \<notin> fst ` set r \<longrightarrow> isnull (last (get_column i df))) \<and>
              (\<forall>i<length (columns df).
                 \<not> date_like (columns df ! i) \<longrightarrow>
                 get_column i df =
                   get_column i T @ [case map_of r (columns df ! i) of Some v \<Rightarrow> v | None \<Rightarrow> NaN]))"
proof (cases "content d = Absent \<or> columns T = []")
  case True
  have "content d = Absent \<or> content d = Corrupt \<or> (\<exists>T. read_excel d = Inr T \<and> columns T = [])"
    using True assms(2) by auto
  from single_row_table [OF this assms(1), of parse table_name r] True
  show ?thesis by auto
next
  case False
  with assms(2) have T: "read_excel d = Inr T" and ne: "columns T \<noteq> []" and wf: "well_formed T"
    by auto
  from appended_table [OF T ne assms(1) wf, of parse table_name r] obtain df where
    u: "update_table parse d table_name r = ([Success_added], d\<lparr>content := Workbook df\<rparr>)"
    and c: "columns df = map (\<lambda>c. lower (strip c)) (columns T)"
    and n: "length (rows df) = length (rows T) + 1"
    and g: "\<forall>i<length (columns T).
              get_column i df =
                (if date_like (lower (strip (columns T ! i)))
                 then to_datetime parse
                        (get_column i T @ [case map_of r (lower (strip (columns T ! i))) of
                                             Some v \<Rightarrow> v | None \<Rightarrow> NaN])
                 else get_column i T @ [case map_of r (lower (strip (columns T ! i))) of
                                          Some v \<Rightarrow> v | None \<Rightarrow> NaN])"
    by blast
  have nulls: "\<forall>i<length (columns df).
                 columns df ! i \<notin> fst ` set r \<longrightarrow> isnull (last (get_column i df))"
  proof (intro allI impI)
    fix i assume i: "i < length (columns df)" and k: "columns df ! i \<notin> fst ` set r"
    from k have "map_of r (columns df ! i) = None" by (simp add: map_of_eq_None_iff)
    with i c g show "isnull (last (get_column i df))"
      by (auto simp: isnull_coerced_NaN)
  qed
  have kept: "\<forall>i<length (columns df).
                 \<not> date_like (columns df ! i) \<longrightarrow>
                 get_column i df =
                   get_column i T @ [case map_of r (columns df ! i) of Some v \<Rightarrow> v | None \<Rightarrow> NaN]"
    using c g by simp
  from u c n nulls kept False show ?thesis by auto
qed

theorem add_keeps_existing_columns_witness:
  "read_excel \<lparr>content = Workbook example_table, writable = True\<rparr> = Inr example_table \<and>
   well_formed example_table \<and> columns example_table \<noteq> [] \<and>
   (\<exists>df. snd (update_table no_parse \<lparr>content = Workbook example_table, writable = True\<rparr>
                ''college_admin_data'' (admin_record example_widgets ''2024-09-01 10:00:00'')) =
            \<lparr>content = Workbook df, writable = True\<rparr> \<and>
          columns df = map (\<lambda>c. lower (strip c)) (columns example_table) \<and>
          length (rows df) = length (rows example_table) + 1) \<and>
   read_excel \<lparr>content = Workbook empty_frame, writable = True\<rparr> = Inr empty_frame \<and>
   well_formed empty_frame \<and> columns empty_frame = [] \<and>
   (\<exists>df. snd (update_table no_parse \<lparr>content = Workbook empty_frame, writable = True\<rparr>
                ''college_admin_data'' (admin_record example_widgets ''2024-09-01 10:00:00'')) =
            \<lparr>content = Workbook df, writable = True\<rparr> \<and>
          columns df = map fst (admin_record example_widgets ''2024-09-01 10:00:00'') \<and>
          length (rows df) = 1) \<and>
   (\<exists>df. snd (update_table no_parse \<lparr>content = Absent, writable = True\<rparr>
                ''college_admin_data'' (admin_record example_widgets ''2024-09-01 10:00:00'')) =
            \<lparr>content = Workbook df, writable = True\<rparr> \<and>
          columns df = map fst (admin_record example_widgets ''2024-09-01 10:00:00'') \<and>
          length (rows df) = 1)"
proof -
  have w: "writable \<lparr>content = c, writable = True\<rparr>" for c by simp
  have rd: "read_excel \<lparr>content = Workbook example_table, writable = True\<rparr> = Inr example_table"
    by code_simp
  have wf: "well_formed example_table" by code_simp
  have ne: "columns example_table \<noteq> []" by code_simp
  have h: "content \<lparr>content = Workbook example_table, writable = True\<rparr> = Absent \<or>
           (read_excel \<lparr>content = Workbook example_table, writable = True\<rparr> = Inr example_table \<and>
            well_formed example_table)"
    using rd wf by blast
  have existing: "\<exists>df. snd (update_table no_parse \<lparr>content = Workbook example_table, writable = True\<rparr>
                ''college_admin_data'' (admin_record example_widgets ''2024-09-01 10:00:00'')) =
            \<lparr>content = Workbook df, writable = True\<rparr> \<and>
          columns df = map (\<lambda>c. lower (strip c)) (columns example_table) \<and>
          length (rows df) = length (rows example_table) + 1"
    using add_keeps_existing_columns [OF w h, of no_parse "''college_admin_data''"
         "admin_record example_widgets ''2024-09-01 10:00:00''"] rd ne
    by auto
  have rd0: "read_excel \<lparr>content = Workbook empty_frame, writable = True\<rparr> = Inr empty_frame"
    by code_simp
  have wf0: "well_formed empty_frame" by code_simp
  have e0: "columns empty_frame = []" by code_simp
  have h0: "content \<lparr>content = Workbook empty_frame, writable = True\<rparr> = Absent \<or>
           (read_excel \<lparr>content = Workbook empty_frame, writable = True\<rparr> = Inr empty_frame \<and>
            well_formed empty_frame)"
    using rd0 wf0 by blast
  have empty: "\<exists>df. snd (update_table no_parse \<lparr>content = Workbook empty_frame, writable = True\<rparr>
                ''college_admin_data'' (admin_record example_widgets ''2024-09-01 10:00:00'')) =
            \<lparr>content = Workbook df, writable = True\<rparr> \<and>
          columns df = map fst (admin_record example_widgets ''2024-09-01 10:00:00'') \<and>
          length (rows df) = 1"
    using add_keeps_existing_columns [OF w h0, of no_parse "''college_admin_data''"
         "admin_record example_widgets ''2024-09-01 10:00:00''"] e0
    by auto
  have h1: "content \<lparr>content = Absent, writable = True\<rparr> = Absent \<or>
           (read_excel \<lparr>content = Absent, writable = True\<rparr> = Inr example_table \<and>
            well_formed example_table)"
    by simp
  have first: "\<exists>df. snd (update_table no_parse \<lparr>content = Absent, writable = True\<rparr>
                ''college_admin_data'' (admin_record example_widgets ''2024-09-01 10:00:00'')) =
            \<lparr>content = Workbook df, writable = True\<rparr> \<and>
          columns df = map fst (admin_record example_widgets ''2024-09-01 10:00:00'') \<and>
          length (rows df) = 1"
    using add_keeps_existing_columns [OF w h1, of no_parse "''college_admin_data''"
         "admin_record example_widgets ''2024-09-01 10:00:00''"]
    by auto
  show ?thesis using rd wf ne existing rd0 wf0 e0 empty first by blast
qed

text \<open>
  The claim as stated fails: the record of the staff form has the column \<open>gender\<close>,
  the table does not, and the persisted table does not either.
\<close>

theorem add_drops_new_columns_counterexample:
  "snd (update_table no_parse \<lparr>content = Workbook example_table, writable = True\<rparr> ''college_admin_data''
          (admin_record example_widgets ''2024-09-01 10:00:00'')) =
     \<lparr>content = Workbook \<lparr>columns = [''admin_id'', ''email''],
                            rows = [ [Text ''A7'', Text ''x@example.org''],
                                    [Text ''A1'', Text ''ann@example.org''] ]\<rparr>,
      writable = True\<rparr> \<and>
   ''gender'' \<in> set (map fst (admin_record example_widgets ''2024-09-01 10:00:00'')) \<and>
   ''gender'' \<notin> set [''admin_id'', ''email'']"
  by code_simp

section \<open>Add, then the existence check\<close>

text \<open>
  C4 (as amended). For the staff table: let the form be submitted with its required text
  fields filled and with a key whose trimmed text is one that a read returns unchanged
  (\<open>keeps_text\<close>), let that key not be present yet, and let the backing file be writable
  and either absent, unreadable, an empty sheet, or a well-formed sheet that has the
  primary-key column. Then after Add the existence check for the key returns true.
\<close>

theorem staff_add_then_exists:
  assumes "full_name w \<noteq> []" and "email w \<noteq> []" and "position w \<noteq> []" and "department w \<noteq> []"
    and "keeps_text (strip (admin_id w))"
    and "\<not> snd (check_pk_exists d ''admin_id'' (admin_id w))"
    and "writable d"
    and "\<forall>sheet. content d = Workbook sheet \<longrightarrow>
           well_formed sheet \<and>
           (columns sheet = [] \<or> ''admin_id'' \<in> set (map (\<lambda>c. lower (strip c)) (columns sheet)))"
  shows "snd (check_pk_exists
                (snd (add_new_record_form parse d ''college_admin_data'' w last_updated True))
                ''admin_id'' (admin_id w))"
proof -
  have pkd: "PRIMARY_KEYS ''college_admin_data'' = Some ''admin_id''" by code_simp
  note pk = PRIMARY_KEYS_facts [OF pkd]
  have nb: "strip (admin_id w) \<noteq> []" using assms(5) by (simp add: keeps_text_def)
  note step = staff_form_appends [OF assms(1-4) nb assms(6), of parse last_updated]
  show ?thesis
  proof (cases "content d")
    case (Workbook sheet)
    with assms(8) have wf: "well_formed sheet"
      and cols: "columns sheet = [] \<or> ''admin_id'' \<in> set (map (\<lambda>c. lower (strip c)) (columns sheet))"
      by auto
    have rd: "read_excel d = Inr (parse_sheet sheet)" using Workbook by simp
    show ?thesis
    proof (cases "columns sheet = []")
      case True
      then have "content d = Absent \<or> content d = Corrupt \<or>
                 (\<exists>T. read_excel d = Inr T \<and> columns T = [])"
        using rd by auto
      from exists_after_first_append [OF pk admin_record_key assms(5) admin_record_keys_distinct
             this assms(7)]
      show ?thesis unfolding step .
    next
      case False
      with cols have "''admin_id'' \<in> set (map (\<lambda>c. lower (strip c)) (columns (parse_sheet sheet)))"
        by simp
      from exists_after_append_to_table [OF pk(1,3) admin_record_key assms(5) rd assms(7)
             parse_sheet_spec(1) [OF wf] this]
      show ?thesis unfolding step .
    qed
  next
    case Absent
    then have "content d = Absent \<or> content d = Corrupt \<or>
               (\<exists>T. read_excel d = Inr T \<and> columns T = [])" by simp
    from exists_after_first_append [OF pk admin_record_key assms(5) admin_record_keys_distinct
           this assms(7)]
    show ?thesis unfolding step .
  next
    case Corrupt
    then have "content d = Absent \<or> content d = Corrupt \<or>
               (\<exists>T. read_excel d = Inr T \<and> columns T = [])" by simp
    from exists_after_first_append [OF pk admin_record_key assms(5) admin_record_keys_distinct
           this assms(7)]
    show ?thesis unfolding step .
  qed
qed

theorem staff_add_then_exists_witness:
  "full_name example_widgets \<noteq> [] \<and> email example_widgets \<noteq> [] \<and>
   position example_widgets \<noteq> [] \<and> department example_widgets \<noteq> [] \<and>
   keeps_text (strip (admin_id example_widgets)) \<and>
   \<not> snd (check_pk_exists \<lparr>content = Workbook example_table, writable = True\<rparr> ''admin_id''
            (admin_id example_widgets)) \<and>
   well_formed example_table \<and>
   ''admin_id'' \<in> set (map (\<lambda>c. lower (strip c)) (columns example_table)) \<and>
   snd (check_pk_exists
          (snd (add_new_record_form no_parse \<lparr>content = Workbook example_table, writable = True\<rparr>
                  ''college_admin_data'' example_widgets ''2024-09-01 10:00:00'' True))
          ''admin_id'' (admin_id example_widgets))"
proof -
  have h1: "full_name example_widgets \<noteq> []" by code_simp
  have h2: "email example_widgets \<noteq> []" by code_simp
  have h3: "position example_widgets \<noteq> []" by code_simp
  have h4: "department example_widgets \<noteq> []" by code_simp
  have h5: "keeps_text (strip (admin_id example_widgets))" by code_simp
  have h6: "\<not> snd (check_pk_exists \<lparr>content = Workbook example_table, writable = True\<rparr>
                     ''admin_id'' (admin_id example_widgets))" by code_simp
  have h7: "writable \<lparr>content = Workbook example_table, writable = True\<rparr>" by simp
  have wf: "well_formed example_table" by code_simp
  have col: "''admin_id'' \<in> set (map (\<lambda>c. lower (strip c)) (columns example_table))"
    by code_simp
  have h8: "\<forall>sheet. content \<lparr>content = Workbook example_table, writable = True\<rparr> = Workbook sheet \<longrightarrow>
              well_formed sheet \<and>
              (columns sheet = [] \<or>
               ''admin_id'' \<in> set (map (\<lambda>c. lower (strip c)) (columns sheet)))"
    using wf col by auto
  from staff_add_then_exists [OF h1 h2 h3 h4 h5 h6 h7 h8, of no_parse "''2024-09-01 10:00:00''"]
       h1 h2 h3 h4 h5 h6 wf col
  show ?thesis by blast
qed

text \<open>
  Without the condition on the sheet the claim fails: the append keeps the columns of the
  existing table, so a table without the primary-key column still has none after Add, and
  the existence check returns false.
\<close>

theorem add_then_exists_counterexample:
  "\<not> snd (check_pk_exists \<lparr>content = Workbook table_without_key, writable = True\<rparr>
            ''admin_id'' ''A1'') \<and>
   add_new_record_form no_parse \<lparr>content = Workbook table_without_key, writable = True\<rparr>
     ''college_admin_data'' example_widgets ''2024-09-01 10:00:00'' True =
     (Inr [Info_enter_details, Warning_pk_column_not_found, Success_added],
      \<lparr>content = Workbook \<lparr>columns = [''name''], rows = [ [Text ''Ann''], [NaN] ]\<rparr>,
       writable = True\<rparr>) \<and>
   \<not> snd (check_pk_exists
            \<lparr>content = Workbook \<lparr>columns = [''name''], rows = [ [Text ''Ann''], [NaN] ]\<rparr>,
             writable = True\<rparr>
            ''admin_id'' ''A1'')"
  by code_simp

text \<open>
  The condition on the key leaves out the keys that the read types anew: the key \<open>007\<close>
  is written as a text, read back as the number 7, and not found.
\<close>

lemma numeric_looking_key_is_retyped:
  "add_new_record_form no_parse \<lparr>content = Absent, writable = True\<rparr> ''college_admin_data''
     (example_widgets\<lparr>admin_id := ''007''\<rparr>) ''2024-09-01 10:00:00'' True =
     (Inr [Info_enter_details, Info_creating, Success_added],
      \<lparr>content = Workbook
          \<lparr>columns = map fst (admin_record example_widgets ''2024-09-01 10:00:00''),
           rows = [ [Text ''007'', Text ''Bo'', Text ''ann@example.org'', PyNone, Text ''Female'',
                    NaT, PyNone, Text ''Clerk'', Text ''Office'', NaT, Text ''Active'',
                    Float ''0.0'', Text ''Morning'', NaT] ]\<rparr>,
       writable = True\<rparr>) \<and>
   \<not> snd (check_pk_exists
            (snd (add_new_record_form no_parse \<lparr>content = Absent, writable = True\<rparr>
                    ''college_admin_data'' (example_widgets\<lparr>admin_id := ''007''\<rparr>)
                    ''2024-09-01 10:00:00'' True))
            ''admin_id'' ''007'')"
  by code_simp

section \<open>Appending to an unreadable file\<close>

text \<open>
  C5. When the backing file exists but cannot be parsed, the append reports the read
  failure and still writes: the file then holds one row, the new record alone (its
  date-like columns coerced), under the record's own columns. Whatever the file held
  before is gone.
\<close>

theorem unreadable_file_overwritten:
  assumes "content d = Corrupt" and "writable d"
  shows "\<exists>row. update_table parse d table_name r =
            ([Error_reading_to_append, Info_overwrite, Success_added],
             d\<lparr>content := Workbook \<lparr>columns = map fst r, rows = [row]\<rparr>\<rparr>) \<and>
          length row = length r \<and>
          (\<forall>i<length r. row ! i =
             (if date_like (fst (r ! i)) then coerce_cell parse [snd (r ! i)] (snd (r ! i))
              else snd (r ! i)))"
proof -
  from coerced_single_row [of parse r] obtain row where
    F: "for_columns (\<lambda>col cs. date_like col) (to_datetime parse) 0 (map fst r) (DataFrame1 r) =
            \<lparr>columns = map fst r, rows = [row]\<rparr>"
    and rest: "length row = length r"
       "\<forall>i<length r. row ! i =
            (if date_like (fst (r ! i)) then coerce_cell parse [snd (r ! i)] (snd (r ! i))
             else snd (r ! i))"
    by blast
  have "update_table parse d table_name r =
            ([Error_reading_to_append, Info_overwrite, Success_added],
             d\<lparr>content := Workbook \<lparr>columns = map fst r, rows = [row]\<rparr>\<rparr>)"
    using update_table_new_file [of d parse table_name r] assms F by simp
  with rest show ?thesis by blast
qed

theorem unreadable_file_overwritten_witness:
  "content \<lparr>content = Corrupt, writable = True\<rparr> = Corrupt \<and>
   writable \<lparr>content = Corrupt, writable = True\<rparr> \<and>
   (\<exists>row. update_table no_parse \<lparr>content = Corrupt, writable = True\<rparr> ''college_admin_data''
             (admin_record example_widgets ''2024-09-01 10:00:00'') =
            ([Error_reading_to_append, Info_overwrite, Success_added],
             \<lparr>content = Workbook \<lparr>columns = map fst (admin_record example_widgets ''2024-09-01 10:00:00''),
                                    rows = [row]\<rparr>, writable = True\<rparr>) \<and>
          length row = 14)"
proof -
  have c: "content \<lparr>content = Corrupt, writable = True\<rparr> = Corrupt" by simp
  have w: "writable \<lparr>content = Corrupt, writable = True\<rparr>" by simp
  have l: "length (admin_record example_widgets ''2024-09-01 10:00:00'') = 14"
    by (simp add: admin_record_def)
  from unreadable_file_overwritten [OF c w, of no_parse "''college_admin_data''"
         "admin_record example_widgets ''2024-09-01 10:00:00''"] l
  show ?thesis by auto
qed

section \<open>Delete\<close>

text \<open>
  C6. Delete on a key that is present. The key cells \<open>7\<close> with a blank on each side and
  \<open>x\<close> are pairwise distinct, also once trimmed and lowercased, and the first is the key
  \<open>7\<close> under that comparison: the existence check reports the key present. Delete of the
  key \<open>7\<close> removes no row: it reports not-found and leaves the backing file as it was.
\<close>

theorem delete_misses_key_present_after_trimming:
  "read_excel \<lparr>content = Workbook \<lparr>columns = [''admin_id''], rows = [ [Text '' 7 ''], [Text ''x''] ]\<rparr>,
               writable = True\<rparr> =
     Inr \<lparr>columns = [''admin_id''], rows = [ [Text '' 7 ''], [Text ''x''] ]\<rparr> \<and>
   lower (strip '' 7 '') \<noteq> lower (strip ''x'') \<and>
   lower (strip '' 7 '') = lower (strip ''7'') \<and>
   snd (check_pk_exists
          \<lparr>content = Workbook \<lparr>columns = [''admin_id''], rows = [ [Text '' 7 ''], [Text ''x''] ]\<rparr>,
           writable = True\<rparr>
          ''admin_id'' ''7'') \<and>
   delete_record
     \<lparr>content = Workbook \<lparr>columns = [''admin_id''], rows = [ [Text '' 7 ''], [Text ''x''] ]\<rparr>,
      writable = True\<rparr>
     ''college_admin_data'' ''7'' =
   (([Warning_not_found], False),
    \<lparr>content = Workbook \<lparr>columns = [''admin_id''], rows = [ [Text '' 7 ''], [Text ''x''] ]\<rparr>,
     writable = True\<rparr>)"
  by code_simp

text \<open>
  What Delete does: with key cells that are pairwise distinct as texts, it removes exactly
  the row whose key cell has the given text, and writes nothing when there is none.
\<close>

lemma delete_by_key_text:
  assumes "read_excel d = Inr T" and "writable d"
    and "PRIMARY_KEYS table_name = Some pk"
    and "pk \<in> set (columns (normalise_columns T))"
    and "distinct (map str_cell (column (normalise_columns T) pk))"
  shows "(k \<in> set (map str_cell (column (normalise_columns T) pk)) \<longrightarrow>
            (\<exists>T'. delete_record d table_name k =
                     (([Success_removed], True), d\<lparr>content := Workbook T'\<rparr>) \<and>
                   columns T' = columns (normalise_columns T) \<and>
                   length (rows T') + 1 = length (rows T) \<and>
                   set (rows T') \<subseteq> set (rows T) \<and>
                   k \<notin> set (map str_cell (column T' pk)))) \<and>
         (k \<notin> set (map str_cell (column (normalise_columns T) pk)) \<longrightarrow>
            delete_record d table_name k = (([Warning_not_found], False), d))"
proof -
  let ?cols = "map (\<lambda>c. lower (strip c)) (columns T)"
  let ?j = "index_of pk ?cols"
  let ?key = "\<lambda>r. str_cell (cell_at r ?j)"
  let ?kept = "filter (\<lambda>r. ?key r \<noteq> k) (rows T)"
  have col: "pk \<in> set ?cols" using assms(4) by (simp add: normalise_columns_def)
  have keys: "map str_cell (column (normalise_columns T) pk) = map ?key (rows T)"
    by (simp add: column_def get_column_def normalise_columns_def)
  have dist: "distinct (map ?key (rows T))" using assms(5) keys by simp
  note del = delete_record_read [OF assms(1,3) col, of k]
  show ?thesis
  proof (intro conjI impI)
    assume "k \<in> set (map str_cell (column (normalise_columns T) pk))"
    then have mem: "k \<in> set (map ?key (rows T))" using keys by simp
    let ?T' = "T\<lparr>columns := ?cols, rows := ?kept\<rparr>"
    have n: "length ?kept + 1 = length (rows T)" using filter_out_one [OF dist mem] .
    then have lt: "length ?kept < length (rows T)" by simp
    have "delete_record d table_name k = (([Success_removed], True), d\<lparr>content := Workbook ?T'\<rparr>)"
      using del lt assms(2) by (simp add: Let_def)
    moreover have "columns ?T' = columns (normalise_columns T)"
      by (simp add: normalise_columns_def)
    moreover have "length (rows ?T') + 1 = length (rows T)" using n by simp
    moreover have "set (rows ?T') \<subseteq> set (rows T)" by auto
    moreover have "k \<notin> set (map str_cell (column ?T' pk))"
      by (auto simp: column_def get_column_def)
    ultimately show "\<exists>T'. delete_record d table_name k =
                     (([Success_removed], True), d\<lparr>content := Workbook T'\<rparr>) \<and>
                   columns T' = columns (normalise_columns T) \<and>
                   length (rows T') + 1 = length (rows T) \<and>
                   set (rows T') \<subseteq> set (rows T) \<and>
                   k \<notin> set (map str_cell (column T' pk))"
      by blast
  next
    assume "k \<notin> set (map str_cell (column (normalise_columns T) pk))"
    then have "k \<notin> set (map ?key (rows T))" using keys by simp
    then have "?kept = rows T" by (rule filter_out_none)
    then show "delete_record d table_name k = (([Warning_not_found], False), d)"
      using del by (simp add: Let_def)
  qed
qed

text \<open>
  The scenario of the specification: deleting key 1 from the rows 1 and 2 leaves row 2.
\<close>

lemma delete_scenario:
  "delete_record \<lparr>content = Workbook admin_table, writable = True\<rparr> ''college_admin_data'' ''1'' =
     (([Success_removed], True),
      \<lparr>content = Workbook \<lparr>columns = [''admin_id''], rows = [ [Number 2] ]\<rparr>, writable = True\<rparr>)"
  by code_simp

section \<open>Date columns\<close>

text \<open>
  C7. The editor writes the edited table as it is: a text that is no date, entered in the
  column \<open>dob\<close>, reaches the backing file unchanged, where the append of
  \<open>update_table\<close> would have turned it into \<open>NaT\<close>.
\<close>

theorem update_writes_date_columns_uncoerced:
  "date_like ''dob'' \<and>
   display_data_editor
     \<lparr>content = Workbook \<lparr>columns = [''student_id'', ''dob''],
                            rows = [ [Text ''S1'', Text ''2010-05-01''] ]\<rparr>,
      writable = True\<rparr>
     ''students''
     (Some \<lparr>columns = [''student_id'', ''dob''], rows = [ [Text ''S1'', Text ''soon''] ]\<rparr>) True =
   ([Info_edit_hint, Success_saved],
    \<lparr>content = Workbook \<lparr>columns = [''student_id'', ''dob''],
                           rows = [ [Text ''S1'', Text ''soon''] ]\<rparr>,
     writable = True\<rparr>)"
  by code_simp

text \<open>
  The append coerces: in the table that \<open>update_table\<close> persists, every cell of a
  date-like column is a timestamp or \<open>NaT\<close>.
\<close>

lemma update_table_coerces_date_columns:
  assumes "read_excel d = Inr T" and "columns T \<noteq> []" and "writable d" and "well_formed T"
  shows "\<exists>df. snd (update_table parse d table_name r) = d\<lparr>content := Workbook df\<rparr> \<and>
           (\<forall>i<length (columns df). date_like (columns df ! i) \<longrightarrow>
              (\<forall>c\<in>set (get_column i df). (\<exists>t. c = Timestamp t) \<or> c = NaT))"
proof -
  from appended_table [OF assms, of parse table_name r] obtain df where
    u: "update_table parse d table_name r = ([Success_added], d\<lparr>content := Workbook df\<rparr>)"
    and c: "columns df = map (\<lambda>c. lower (strip c)) (columns T)"
    and g: "\<forall>i<length (columns T).
              get_column i df =
                (if date_like (lower (strip (columns T ! i)))
                 then to_datetime parse
                        (get_column i T @ [case map_of r (lower (strip (columns T ! i))) of
                                             Some v \<Rightarrow> v | None \<Rightarrow> NaN])
                 else get_column i T @ [case map_of r (lower (strip (columns T ! i))) of
                                          Some v \<Rightarrow> v | None \<Rightarrow> NaN])"
    by blast
  have "\<forall>i<length (columns df). date_like (columns df ! i) \<longrightarrow>
              (\<forall>c\<in>set (get_column i df). (\<exists>t. c = Timestamp t) \<or> c = NaT)"
    using c g coerce_cell_result by (auto simp: to_datetime_def)
  with u show ?thesis by auto
qed

section \<open>Loading\<close>

text \<open>
  C8. Loading a table whose backing file does not exist returns the empty table, with a
  warning and no failure; loading a file that exists but cannot be parsed reports the read
  error and still returns the empty table.
\<close>

theorem load_missing_or_unreadable:
  "get_table_data (d\<lparr>content := Absent\<rparr>) = ([Warning_file_not_found], empty_frame) \<and>
   get_table_data (d\<lparr>content := Corrupt\<rparr>) = ([Error_reading], empty_frame) \<and>
   is_empty empty_frame"
  by (simp add: get_table_data_def path_exists_def is_empty_def empty_frame_def)

theorem load_missing_or_unreadable_witness:
  "get_table_data \<lparr>content = Absent, writable = True\<rparr> = ([Warning_file_not_found], empty_frame) \<and>
   get_table_data \<lparr>content = Corrupt, writable = True\<rparr> = ([Error_reading], empty_frame)"
  using load_missing_or_unreadable [of "\<lparr>content = Absent, writable = True\<rparr>"]
  by simp

section \<open>The existence check\<close>

text \<open>
  C9. The existence check returns false, and raises nothing, when the backing file does not
  exist and when the loaded table has no primary-key column.
\<close>

theorem existence_check_false_without_file_or_column:
  assumes "content d = Absent \<or>
           (\<exists>df. content d = Workbook df \<and>
                 lower pk_column_name \<notin> set (map (\<lambda>c. lower (strip c)) (columns df)))"
  shows "snd (check_pk_exists d pk_column_name pk_value) = False"
  using assms
  by (auto simp: check_pk_exists_def path_exists_def str_columns_def normalise_columns_def Let_def
           split: if_splits)

theorem existence_check_false_without_file_or_column_witness:
  "snd (check_pk_exists \<lparr>content = Absent, writable = True\<rparr> ''student_id'' ''S1'') = False \<and>
   lower ''student_id'' \<notin>
     set (map (\<lambda>c. lower (strip c)) (columns \<lparr>columns = [''name''], rows = [ [Text ''S1''] ]\<rparr>)) \<and>
   snd (check_pk_exists
          \<lparr>content = Workbook \<lparr>columns = [''name''], rows = [ [Text ''S1''] ]\<rparr>, writable = True\<rparr>
          ''student_id'' ''S1'') = False"
proof -
  have absent_col: "lower ''student_id'' \<notin>
      set (map (\<lambda>c. lower (strip c)) (columns \<lparr>columns = [''name''], rows = [ [Text ''S1''] ]\<rparr>))"
    by code_simp
  have no_file: "snd (check_pk_exists \<lparr>content = Absent, writable = True\<rparr> ''student_id'' ''S1'') = False"
    using existence_check_false_without_file_or_column
            [of "\<lparr>content = Absent, writable = True\<rparr>" "''student_id''" "''S1''"]
    by simp
  have no_col: "snd (check_pk_exists
          \<lparr>content = Workbook \<lparr>columns = [''name''], rows = [ [Text ''S1''] ]\<rparr>, writable = True\<rparr>
          ''student_id'' ''S1'') = False"
    using existence_check_false_without_file_or_column
            [of "\<lparr>content = Workbook \<lparr>columns = [''name''], rows = [ [Text ''S1''] ]\<rparr>, writable = True\<rparr>"
                "''student_id''" "''S1''"] absent_col
    by simp
  show ?thesis using absent_col no_file no_col by blast
qed

section \<open>The students form\<close>

text \<open>
  C10. A submission of the students form with an empty required field (here the email) is
  not rejected by the required-field test: collecting the required fields evaluates the
  name \<open>student_name\<close>, which is bound nowhere (the widget value is \<open>student_Name\<close>), and
  the function is left with \<open>NameError\<close> before any test runs. The staff form, which
  collects its required fields under the names they are bound to, rejects the same values
  with the notice of the test.
\<close>

theorem students_form_raises_before_validation:
  "add_new_record_form no_parse \<lparr>content = Absent, writable = True\<rparr> ''students''
     (example_widgets\<lparr>email := []\<rparr>) ''2024-09-01 10:00:00'' True =
     (Inl (NameError ''student_name''), \<lparr>content = Absent, writable = True\<rparr>) \<and>
   add_new_record_form no_parse \<lparr>content = Absent, writable = True\<rparr> ''college_admin_data''
     (example_widgets\<lparr>email := []\<rparr>) ''2024-09-01 10:00:00'' True =
     (Inr [Info_enter_details, Error_fill_required], \<lparr>content = Absent, writable = True\<rparr>)"
  by code_simp

text \<open>
  The same happens to every submission of the students form, complete or not: no student
  is ever added.
\<close>

lemma students_submission_raises:
  "add_new_record_form parse d ''students'' w last_updated True =
     (Inl (NameError ''student_name''), d)"
  by (simp add: add_new_record_form_def PRIMARY_KEYS_def students_scope_def)

end
